theory Spec2Isabelle
  imports Main "HOL-Library.Log_Nat" "HOL-Library.Sublist"
begin

text \<open>
  The processing pipeline of \<open>src/utils/videoProcessor.js\<close>: the metadata probe, the
  sampling and classification of frames with the decision on the verdict, the mock
  classifier, and the orchestrator \<open>processVideo\<close> with its updates of the stored record
  and its events. One run is a function of the record and of what the run reads from
  outside; it yields the trace of its effects and the way it ends.
\<close>

section \<open>JavaScript numbers\<close>

text \<open>
  A JavaScript number is an IEEE 754 binary64 value. The finite ones are rationals, so a
  number is modelled as a rational or one of the three special values. The two zeros are
  identified: the pipeline never divides by a computed zero and never prints one. An
  integer literal or counter of the source is written as it is, being exact; a decimal
  literal \<open>q\<close> is \<open>rnd q\<close>, its nearest binary64 value; every arithmetic operation
  rounds its exact result.
\<close>

datatype jsnum = Fin rat | PInf | NInf | NaN

text \<open>Rounding to the nearest integer, ties to the even one.\<close>

definition rne :: "rat \<Rightarrow> int" where
  "rne x = (let f = \<lfloor>x\<rfloor>; d = x - of_int f in
     if d < 1 / 2 then f else if 1 / 2 < d then f + 1 else if even f then f else f + 1)"

text \<open>The binary exponent of a positive rational: \<open>2 powi ilog2 x \<le> x < 2 powi (ilog2 x + 1)\<close>.\<close>

definition ilog2 :: "rat \<Rightarrow> int" where
  "ilog2 x = (if 1 \<le> x then bitlen \<lfloor>x\<rfloor> - 1 else - bitlen (\<lceil>1 / x\<rceil> - 1))"

text \<open>
  The exponent of the unit in the last place: 53 significant bits, and below
  \<open>2 powi - 1022\<close> the fixed spacing of the subnormal numbers.
\<close>

definition ulp_exp :: "rat \<Rightarrow> int" where
  "ulp_exp x = max (ilog2 \<bar>x\<bar>) (- 1022) - 52"

text \<open>Round to nearest, ties to even, on an unbounded exponent range.\<close>

definition fl :: "rat \<Rightarrow> rat" where
  "fl x = (if x = 0 then 0 else of_int (rne (x / 2 powi ulp_exp x)) * 2 powi ulp_exp x)"

text \<open>
  The binary64 value of an exact result, with overflow to the infinities. It is also the
  value of a decimal literal of the source (\<open>0.6\<close> is \<open>rnd (6 / 10)\<close>) and of a number
  read from a JSON response.
\<close>

definition rnd :: "rat \<Rightarrow> jsnum" where
  "rnd x = (let y = fl x in
     if 2 ^ 1024 \<le> y then PInf else if y \<le> - (2 ^ 1024) then NInf else Fin y)"

fun jneg :: "jsnum \<Rightarrow> jsnum" where
  "jneg (Fin a) = Fin (- a)"
| "jneg PInf = NInf"
| "jneg NInf = PInf"
| "jneg NaN = NaN"

fun jadd :: "jsnum \<Rightarrow> jsnum \<Rightarrow> jsnum" where
  "jadd (Fin a) (Fin b) = rnd (a + b)"
| "jadd NaN y = NaN"
| "jadd x NaN = NaN"
| "jadd PInf NInf = NaN"
| "jadd NInf PInf = NaN"
| "jadd PInf y = PInf"
| "jadd x PInf = PInf"
| "jadd NInf y = NInf"
| "jadd x NInf = NInf"

definition jsub :: "jsnum \<Rightarrow> jsnum \<Rightarrow> jsnum" where
  "jsub x y = jadd x (jneg y)"

text \<open>The sign of a product or quotient with an infinite operand.\<close>

definition signed_inf :: "bool \<Rightarrow> jsnum" where
  "signed_inf positive = (if positive then PInf else NInf)"

fun jmul :: "jsnum \<Rightarrow> jsnum \<Rightarrow> jsnum" where
  "jmul (Fin a) (Fin b) = rnd (a * b)"
| "jmul NaN y = NaN"
| "jmul x NaN = NaN"
| "jmul (Fin a) PInf = (if a = 0 then NaN else signed_inf (0 < a))"
| "jmul (Fin a) NInf = (if a = 0 then NaN else signed_inf (a < 0))"
| "jmul PInf (Fin b) = (if b = 0 then NaN else signed_inf (0 < b))"
| "jmul NInf (Fin b) = (if b = 0 then NaN else signed_inf (b < 0))"
| "jmul PInf PInf = PInf"
| "jmul NInf NInf = PInf"
| "jmul PInf NInf = NInf"
| "jmul NInf PInf = NInf"

fun jdiv :: "jsnum \<Rightarrow> jsnum \<Rightarrow> jsnum" where
  "jdiv (Fin a) (Fin b) =
     (if b = 0 then (if a = 0 then NaN else signed_inf (0 < a)) else rnd (a / b))"
| "jdiv NaN y = NaN"
| "jdiv x NaN = NaN"
| "jdiv (Fin a) y = Fin 0"
| "jdiv PInf (Fin b) = signed_inf (0 \<le> b)"
| "jdiv NInf (Fin b) = signed_inf (b < 0)"
| "jdiv x y = NaN"

text \<open>\<open>x < y\<close>; every comparison with \<open>NaN\<close> is false.\<close>

fun jlt :: "jsnum \<Rightarrow> jsnum \<Rightarrow> bool" where
  "jlt (Fin a) (Fin b) = (a < b)"
| "jlt NaN y = False"
| "jlt x NaN = False"
| "jlt x NInf = False"
| "jlt PInf y = False"
| "jlt x y = True"

definition jgt :: "jsnum \<Rightarrow> jsnum \<Rightarrow> bool" where
  "jgt x y = jlt y x"

text \<open>\<open>x <= y\<close>\<close>

definition jle :: "jsnum \<Rightarrow> jsnum \<Rightarrow> bool" where
  "jle x y = (x \<noteq> NaN \<and> y \<noteq> NaN \<and> \<not> jlt y x)"

text \<open>\<open>x === y\<close> on numbers.\<close>

definition jeq :: "jsnum \<Rightarrow> jsnum \<Rightarrow> bool" where
  "jeq x y = (x \<noteq> NaN \<and> x = y)"

text \<open>\<open>Math.max(x, y)\<close> and \<open>Math.min(x, y)\<close>.\<close>

definition Math_max :: "jsnum \<Rightarrow> jsnum \<Rightarrow> jsnum" where
  "Math_max x y = (if x = NaN \<or> y = NaN then NaN else if jlt x y then y else x)"

definition Math_min :: "jsnum \<Rightarrow> jsnum \<Rightarrow> jsnum" where
  "Math_min x y = (if x = NaN \<or> y = NaN then NaN else if jlt y x then y else x)"

text \<open>\<open>Math.round(x)\<close>: the integer nearest to \<open>x\<close>, a tie going up.\<close>

fun Math_round :: "jsnum \<Rightarrow> jsnum" where
  "Math_round (Fin a) = Fin (of_int \<lfloor>a + 1 / 2\<rfloor>)"
| "Math_round x = x"

text \<open>
  \<open>parseFloat(x.toFixed(d))\<close>. \<open>toFixed\<close> prints the integer \<open>n\<close> for which \<open>n / 10 ^ d\<close>
  is nearest to the exact value of \<open>\<bar>x\<bar>\<close>, the larger one on a tie, with the sign of \<open>x\<close>;
  \<open>parseFloat\<close> reads the decimal back as the nearest binary64 value. From \<open>10 ^ 21\<close> on,
  and for the special values, \<open>toFixed\<close> prints the number as \<open>String\<close> does and
  \<open>parseFloat\<close> gives it back.
\<close>

fun toFixed_parseFloat :: "nat \<Rightarrow> jsnum \<Rightarrow> jsnum" where
  "toFixed_parseFloat d (Fin a) =
     (if 10 ^ 21 \<le> \<bar>a\<bar> then Fin a
      else rnd (sgn a * of_int \<lfloor>\<bar>a\<bar> * 10 ^ d + 1 / 2\<rfloor> / 10 ^ d))"
| "toFixed_parseFloat d x = x"

text \<open>A number that is zero, positive or plus infinity.\<close>

fun nonneg :: "jsnum \<Rightarrow> bool" where
  "nonneg (Fin a) = (0 \<le> a)"
| "nonneg PInf = True"
| "nonneg x = False"

section \<open>Strings\<close>

text \<open>\<open>String.prototype.toLowerCase\<close> on the ASCII letters.\<close>

definition lower_char :: "char \<Rightarrow> char" where
  "lower_char c = (let n = (of_char c :: nat) in
     if 65 \<le> n \<and> n \<le> 90 then char_of (n + 32) else c)"

definition toLowerCase :: "string \<Rightarrow> string" where
  "toLowerCase s = map lower_char s"

text \<open>\<open>s.includes(t)\<close>: \<open>t\<close> occurs in \<open>s\<close> as a contiguous run.\<close>

fun str_includes :: "string \<Rightarrow> string \<Rightarrow> bool" where
  "str_includes [] t = (t = [])"
| "str_includes (c # cs) t = (prefix t (c # cs) \<or> str_includes cs t)"

definition includes_any :: "string \<Rightarrow> string list \<Rightarrow> bool" where
  "includes_any s ts = list_ex (str_includes s) ts"

section \<open>The classifier's answer for one frame\<close>

text \<open>
  One entry of the list a classification model answers with. Line 204 reads
  \<open>(item.label || '').toLowerCase()\<close>, which throws for an entry that is \<open>null\<close> and for
  an entry whose label is neither falsy nor a string: such an entry is \<open>Unreadable\<close>.
  Any other entry has a label, which may be missing, and a score: \<open>item.score\<close> as the
  number that \<open>Math.max\<close> and \<open>*\<close> make of it (lines 210, 215 and 219), which is the
  nearest binary64 value for a number of the JSON response and \<open>NaN\<close> for a field that
  is missing.
\<close>

datatype item = Unreadable | Entry "string option" jsnum

text \<open>
  The response body, \<open>apiResult.data\<close>: a list of items, an object that is not a list
  (its entries in order, a value that is not a number being \<open>None\<close>), no value
  (\<open>undefined\<close>, for which \<open>JSON.stringify(result).substring\<close> at line 194 throws), or
  anything else (\<open>null\<close>, a string, a number, a boolean).
\<close>

datatype api_result =
  ResultArray "item list"
| ResultObject "(string \<times> rat option) list"
| ResultUndefined
| ResultOther

text \<open>\<open>callHuggingFaceAPI\<close> returns the response body or throws.\<close>

datatype api_outcome = ApiThrows | ApiReturns api_result

definition unsafe_keywords :: "string list" where
  "unsafe_keywords =
     [''nsfw'', ''unsafe'', ''porn'', ''adult'', ''sexual'', ''explicit'', ''nude'', ''erotic'']"

definition safe_keywords :: "string list" where
  "safe_keywords = [''normal'', ''sfw'', ''safe'', ''neutral'', ''clean'', ''appropriate'']"

definition ambiguous_keywords :: "string list" where
  "ambiguous_keywords = [''bikini'', ''underwear'', ''swimsuit'']"

text \<open>
  The loop over the items of a list answer (lines 203 to 221): the two scores after the
  last item, or \<open>None\<close> when reading an item throws.
\<close>

fun scan_items :: "item list \<Rightarrow> jsnum \<times> jsnum \<Rightarrow> (jsnum \<times> jsnum) option" where
  "scan_items [] acc = Some acc"
| "scan_items (Unreadable # its) acc = None"
| "scan_items (Entry lbl sc # its) (nsfwScore, normalScore) =
     (let l = toLowerCase (case lbl of None \<Rightarrow> [] | Some s \<Rightarrow> s) in
      if includes_any l unsafe_keywords
      then scan_items its (Math_max nsfwScore sc, normalScore)
      else if includes_any l safe_keywords
      then scan_items its (nsfwScore, Math_max normalScore sc)
      else if includes_any l ambiguous_keywords
      then scan_items its (Math_max nsfwScore (jmul sc (rnd (1 / 2))), normalScore)
      else scan_items its (nsfwScore, normalScore))"

text \<open>\<open>typeof value === 'number' ? value : 0\<close>\<close>

definition number_or_zero :: "rat option \<Rightarrow> jsnum" where
  "number_or_zero v = (case v of None \<Rightarrow> Fin 0 | Some q \<Rightarrow> rnd q)"

text \<open>The loop over the entries of an object answer (lines 224 to 231).\<close>

fun scan_entries :: "(string \<times> rat option) list \<Rightarrow> jsnum \<times> jsnum \<Rightarrow> jsnum \<times> jsnum" where
  "scan_entries [] acc = acc"
| "scan_entries ((key, v) # es) (nsfwScore, normalScore) =
     (let l = toLowerCase key in
      if includes_any l [''nsfw'', ''unsafe'', ''sexual'']
      then scan_entries es (Math_max nsfwScore (number_or_zero v), normalScore)
      else if includes_any l [''safe'', ''normal'']
      then scan_entries es (nsfwScore, Math_max normalScore (number_or_zero v))
      else scan_entries es (nsfwScore, normalScore))"

text \<open>
  The pair \<open>(nsfwScore, normalScore)\<close> of one frame whose call returned (lines 194 to
  238), or \<open>None\<close> when line 194 or the reading of an item throws.
\<close>

definition frame_scores :: "api_result \<Rightarrow> (jsnum \<times> jsnum) option" where
  "frame_scores result =
     (case (case result of
              ResultArray its \<Rightarrow> scan_items its (Fin 0, Fin 0)
            | ResultObject es \<Rightarrow> Some (scan_entries es (Fin 0, Fin 0))
            | ResultUndefined \<Rightarrow> None
            | ResultOther \<Rightarrow> Some (Fin 0, Fin 0)) of
        None \<Rightarrow> None
      | Some (nsfwScore, normalScore) \<Rightarrow>
          if jeq nsfwScore (Fin 0) \<and> jeq normalScore (Fin 0)
          then Some (nsfwScore, rnd (95 / 100)) else Some (nsfwScore, normalScore))"

section \<open>The metadata probe\<close>

text \<open>What \<open>ffprobe\<close> reports: the streams and, of the format, the duration and the bit rate.\<close>

record stream =
  codec_type :: string
  width :: "nat option"
  height :: "nat option"
  r_frame_rate :: "string option"
  codec_name :: "string option"

record probe_data =
  streams :: "stream list"
  format_duration :: "rat option"
  format_bit_rate :: "nat option"

text \<open>The object \<open>getVideoMetadata\<close> resolves with.\<close>

record metadata =
  meta_duration :: "rat option"
  meta_width :: "nat option"
  meta_height :: "nat option"
  fps :: jsnum
  bitrate :: "nat option"
  codec :: "string option"

text \<open>
  \<open>eval\<close> is the host's. On a decimal integer literal, and on the quotient of two, its
  value is computed here; on every other text it is whatever the host makes of it, the
  parameter \<open>host\<close>: a number or an exception.
\<close>

datatype eval_outcome = EvalNumber jsnum | EvalThrows

definition is_digit :: "char \<Rightarrow> bool" where
  "is_digit c = (48 \<le> (of_char c :: nat) \<and> (of_char c :: nat) \<le> 57)"

text \<open>A decimal integer literal: \<open>0\<close>, or digits that do not start with \<open>0\<close>.\<close>

definition decimal_literal :: "string \<Rightarrow> nat option" where
  "decimal_literal s =
     (if s = [] \<or> \<not> list_all is_digit s \<or> (hd s = CHR ''0'' \<and> tl s \<noteq> []) then None
      else Some (foldl (\<lambda>n c. 10 * n + (of_char c - 48)) 0 s))"

definition js_eval :: "(string \<Rightarrow> eval_outcome) \<Rightarrow> string \<Rightarrow> eval_outcome" where
  "js_eval host s =
     (case decimal_literal s of
        Some n \<Rightarrow> EvalNumber (rnd (of_nat n))
      | None \<Rightarrow>
          (case (decimal_literal (takeWhile (\<lambda>c. c \<noteq> CHR ''/'') s),
                 decimal_literal (drop 1 (dropWhile (\<lambda>c. c \<noteq> CHR ''/'') s))) of
             (Some a, Some b) \<Rightarrow> EvalNumber (jdiv (rnd (of_nat a)) (rnd (of_nat b)))
           | _ \<Rightarrow> host s))"

text \<open>\<open>videoStream?.r_frame_rate || '0'\<close>\<close>

definition frame_rate_text :: "stream option \<Rightarrow> string" where
  "frame_rate_text videoStream =
     (case Option.bind videoStream r_frame_rate of
        None \<Rightarrow> ''0''
      | Some r \<Rightarrow> if r = [] then ''0'' else r)"

section \<open>Events, verdicts and the stored record\<close>

datatype stage =
  Starting
| ExtractingMetadata
| ExtractingFrames nat
| AnalyzingFrame nat nat
| AnalyzingContent
| FinalizingAnalysis
| Finalizing

datatype flag = Pending | Safe | Flagged

text \<open>
  An issue message: for a frame, its number and the percentage that the message prints;
  for the mock classifier, its fixed sentence.
\<close>

datatype issue = FrameIssue nat jsnum | MockIssue

record details =
  totalFramesAnalyzed :: nat
  successfulAnalyses :: nat
  details_flaggedFrames :: nat
  averageNsfwScore :: jsnum

record verdict =
  verdict_flag :: flag
  confidence :: jsnum
  detectedIssues :: "issue list"
  verdict_details :: "details option"

text \<open>
  The three kinds of event on the channel of one job: progress (percentage and stage),
  completion (flag, confidence, issues, details, and of the metadata the duration, the
  resolution and the codec), and failure (the message).
\<close>

datatype event =
  Progress jsnum stage
| Complete flag jsnum "issue list" "details option" "rat option" "nat option \<times> nat option"
    "string option"
| ProcessingError string

datatype status = StatusPending | Processing | Completed | Failed

record video =
  status :: status
  processProgress :: jsnum
  sensitivityFlag :: flag
  video_metadata :: "metadata option"
  duration :: "rat option"
  processedAt :: "nat option"
  errorMessage :: "string option"

text \<open>The update document of \<open>findByIdAndUpdate\<close>: the fields it sets, in order.\<close>

datatype field_update =
  SetStatus status
| SetProcessProgress jsnum
| SetSensitivityFlag flag
| SetMetadata metadata
| SetDuration "rat option"
| SetProcessedAt nat
| SetErrorMessage string

fun set_field :: "field_update \<Rightarrow> video \<Rightarrow> video" where
  "set_field (SetStatus s) v = v\<lparr>status := s\<rparr>"
| "set_field (SetProcessProgress p) v = v\<lparr>processProgress := p\<rparr>"
| "set_field (SetSensitivityFlag f) v = v\<lparr>sensitivityFlag := f\<rparr>"
| "set_field (SetMetadata m) v = v\<lparr>video_metadata := Some m\<rparr>"
| "set_field (SetDuration d) v = v\<lparr>duration := d\<rparr>"
| "set_field (SetProcessedAt t) v = v\<lparr>processedAt := Some t\<rparr>"
| "set_field (SetErrorMessage e) v = v\<lparr>errorMessage := Some e\<rparr>"

definition findByIdAndUpdate :: "field_update list \<Rightarrow> video \<Rightarrow> video" where
  "findByIdAndUpdate u v = fold set_field u v"

text \<open>What a run does to the outside, in order: an update of the record or an event.\<close>

datatype effect = Update "field_update list" | Emit event

section \<open>The environment of one run\<close>

record frame =
  frame_no :: nat
  buffer :: string

text \<open>
  Everything a run reads from outside: the API key of the process, what \<open>ffprobe\<close> calls
  back with (an error message or the data), the host's \<open>eval\<close>, what the screenshot
  command leaves (an error message, or for each \<open>i\<close> the bytes of \<open>frame-i.jpg\<close> if
  the file exists), what \<open>callHuggingFaceAPI\<close> (lines 40 to 63) does when called at loop index \<open>i\<close> on a
  buffer, the successive values of \<open>Math.random()\<close>, and the clock.
\<close>

record env =
  apiKey :: "string option"
  ffprobe :: "string + probe_data"
  host_eval :: "string \<Rightarrow> eval_outcome"
  screenshots :: "string + (nat \<Rightarrow> string option)"
  callHuggingFaceAPI :: "nat \<Rightarrow> string \<Rightarrow> api_outcome"
  Math_random :: "nat \<Rightarrow> rat"
  Date_now :: nat

section \<open>The pipeline\<close>

text \<open>
  \<open>getVideoMetadata\<close> (lines 66 to 84). The promise is rejected with the error of
  \<open>ffprobe\<close>, or resolved; an exception of \<open>eval\<close> is thrown inside the callback of
  \<open>ffprobe\<close>, where nothing settles the promise.
\<close>

datatype probe_outcome = ProbeResolved metadata | ProbeRejected string | ProbeCallbackThrows

definition getVideoMetadata :: "env \<Rightarrow> probe_outcome" where
  "getVideoMetadata e =
     (case ffprobe e of
        Inl err \<Rightarrow> ProbeRejected err
      | Inr d \<Rightarrow>
          (let videoStream = find (\<lambda>s. codec_type s = ''video'') (streams d) in
           case js_eval (host_eval e) (frame_rate_text videoStream) of
             EvalThrows \<Rightarrow> ProbeCallbackThrows
           | EvalNumber r \<Rightarrow>
               ProbeResolved
                 \<lparr>meta_duration = format_duration d,
                  meta_width = Option.bind videoStream width,
                  meta_height = Option.bind videoStream height,
                  fps = r,
                  bitrate = format_bit_rate d,
                  codec = Option.bind videoStream codec_name\<rparr>))"

text \<open>
  \<open>extractFrames\<close> (lines 87 to 136): the progress event, then the rejection, or the
  frames whose files exist, in order.
\<close>

definition extractFrames :: "env \<Rightarrow> nat \<Rightarrow> event list \<times> (string + frame list)" where
  "extractFrames e numFrames =
     ([Progress (Fin 25) (ExtractingFrames numFrames)],
      case screenshots e of
        Inl err \<Rightarrow> Inl err
      | Inr files \<Rightarrow>
          Inr (List.map_filter
                 (\<lambda>i. map_option (\<lambda>b. \<lparr>frame_no = i, buffer = b\<rparr>) (files i))
                 [1 ..< Suc numFrames]))"

text \<open>The local variables of \<open>analyzeSensitivity\<close> that the frame loop updates.\<close>

record tally =
  flaggedFrames :: nat
  totalNsfwScore :: jsnum
  issues :: "issue list"
  apiSuccessCount :: nat

text \<open>
  The body of the loop for a frame whose call returned (lines 189 to 253). The count of
  line 192 is raised before the response is read; when reading it throws, the handler
  of line 250 continues with the next frame and the other variables are as they were.
\<close>

definition tally_frame :: "nat \<Rightarrow> api_result \<Rightarrow> tally \<Rightarrow> tally" where
  "tally_frame i result t =
     (let t1 = t\<lparr>apiSuccessCount := apiSuccessCount t + 1\<rparr> in
      case frame_scores result of
        None \<Rightarrow> t1
      | Some (nsfwScore, normalScore) \<Rightarrow>
          (let t2 = t1\<lparr>totalNsfwScore := jadd (totalNsfwScore t) nsfwScore\<rparr>
           in if jgt nsfwScore (rnd (6 / 10))
              then t2\<lparr>flaggedFrames := flaggedFrames t + 1,
                      issues := issues t @ [FrameIssue (i + 1) (jmul nsfwScore (Fin 100))]\<rparr>
              else t2))"

text \<open>
  The frame loop (lines 174 to 257), \<open>n\<close> being \<open>frames.length\<close> and \<open>i\<close> the index of
  the first frame of the list: the progress event of an iteration, what the iteration
  does to the variables (a call that throws leaves them as they are, a call that
  returns is counted and its response read), and the loop.
\<close>

definition frame_event :: "nat \<Rightarrow> nat \<Rightarrow> event" where
  "frame_event n i =
     (let progress = jadd (Fin 30) (jmul (jdiv (Fin (of_nat (i + 1))) (Fin (of_nat n))) (Fin 60))
      in Progress (Math_round progress) (AnalyzingFrame (i + 1) n))"

definition frame_tally :: "env \<Rightarrow> nat \<Rightarrow> frame \<Rightarrow> tally \<Rightarrow> tally" where
  "frame_tally e i f t =
     (case callHuggingFaceAPI e i (buffer f) of
        ApiThrows \<Rightarrow> t
      | ApiReturns result \<Rightarrow> tally_frame i result t)"

fun frame_loop :: "env \<Rightarrow> nat \<Rightarrow> nat \<Rightarrow> frame list \<Rightarrow> tally \<Rightarrow> event list \<times> tally" where
  "frame_loop e n i [] t = ([], t)"
| "frame_loop e n i (f # fs) t =
     (let (evs, t') = frame_loop e n (i + 1) fs (frame_tally e i f t)
      in (frame_event n i # evs, t'))"

text \<open>The decision (lines 269 to 304).\<close>

definition final_verdict :: "nat \<Rightarrow> tally \<Rightarrow> verdict" where
  "final_verdict n t =
     (let average = jdiv (totalNsfwScore t) (Fin (of_nat (apiSuccessCount t)));
          isSafe = (flaggedFrames t = 0 \<and> jlt average (rnd (1 / 2)));
          conf = (if isSafe
                  then Math_min (jmul (jsub (Fin 1) average) (rnd (11 / 10))) (rnd (99 / 100))
                  else Math_min (jmul average (rnd (11 / 10))) (rnd (99 / 100)))
      in \<lparr>verdict_flag = (if isSafe then Safe else Flagged),
          confidence = toFixed_parseFloat 3 conf,
          detectedIssues = (if isSafe then [] else issues t),
          verdict_details =
            Some \<lparr>totalFramesAnalyzed = n,
                  successfulAnalyses = apiSuccessCount t,
                  details_flaggedFrames = flaggedFrames t,
                  averageNsfwScore = toFixed_parseFloat 4 average\<rparr>\<rparr>)"

text \<open>
  The timer of the mock classifier (lines 318 to 343): every tick adds 10 to the counter
  and emits it, and the tick that reaches 100 is the last.
\<close>

function mock_interval :: "int \<Rightarrow> event list" where
  "mock_interval progress =
     (let p = progress + 10;
          ev = Progress (Fin (of_int p)) (if p < 50 then AnalyzingContent else FinalizingAnalysis)
      in if 100 \<le> p then [ev] else ev # mock_interval p)"
  by pat_completeness auto
termination
  by (relation "measure (\<lambda>progress. nat (100 - progress))") auto

text \<open>\<open>analyzeSensitivityMock\<close> (lines 316 to 345): the ticks, then the random verdict.\<close>

definition analyzeSensitivityMock :: "env \<Rightarrow> event list \<times> verdict" where
  "analyzeSensitivityMock e =
     (let isSafe = jgt (Fin (Math_random e 0)) (rnd (3 / 10)) in
      (mock_interval 0,
       \<lparr>verdict_flag = (if isSafe then Safe else Flagged),
        confidence = jadd (jmul (Fin (Math_random e 1)) (rnd (3 / 10))) (rnd (7 / 10)),
        detectedIssues = (if isSafe then [] else [MockIssue]),
        verdict_details = None\<rparr>))"

text \<open>\<open>!this.apiKey\<close>\<close>

definition no_apiKey :: "env \<Rightarrow> bool" where
  "no_apiKey e = (apiKey e = None \<or> apiKey e = Some [])"

definition empty_tally :: tally where
  "empty_tally = \<lparr>flaggedFrames = 0, totalNsfwScore = Fin 0, issues = [], apiSuccessCount = 0\<rparr>"

text \<open>
  \<open>analyzeSensitivity\<close> (lines 157 to 313): the events it emits and the verdict it
  returns. A rejection of \<open>extractFrames\<close> is caught by the outer handler, which runs
  the mock classifier.
\<close>

definition analyzeSensitivity :: "env \<Rightarrow> event list \<times> verdict" where
  "analyzeSensitivity e =
     (if no_apiKey e then analyzeSensitivityMock e
      else
        (case extractFrames e 5 of
           (evs, Inl err) \<Rightarrow>
             (let (mock_evs, v) = analyzeSensitivityMock e in (evs @ mock_evs, v))
         | (evs, Inr frames) \<Rightarrow>
             (let (loop_evs, t) = frame_loop e (length frames) 0 frames empty_tally in
              if apiSuccessCount t = 0
              then (let (mock_evs, v) = analyzeSensitivityMock e
                    in (evs @ loop_evs @ mock_evs, v))
              else (evs @ loop_evs, final_verdict (length frames) t))))"

text \<open>
  How a run of \<open>processVideo\<close> ends: it returns the updated record, it throws the error
  again after recording the failure, or it never continues because the exception inside
  the callback of \<open>ffprobe\<close> left the promise it awaits unsettled.
\<close>

datatype run_end = Returns video | Throws string | NeverSettles

text \<open>
  \<open>processVideo\<close> (lines 348 to 435) on the stored record of the job: the effects in
  order, and how the run ends. The store is the reliable map the pipeline takes it for:
  an update changes the record and does not fail.
\<close>

definition processVideo :: "env \<Rightarrow> video \<Rightarrow> effect list \<times> run_end" where
  "processVideo e v =
     (let start =
        [Update [SetStatus Processing, SetProcessProgress (Fin 0)],
         Emit (Progress (Fin 0) Starting),
         Emit (Progress (Fin 20) ExtractingMetadata)]
      in case getVideoMetadata e of
           ProbeCallbackThrows \<Rightarrow> (start, NeverSettles)
         | ProbeRejected err \<Rightarrow>
             (start @ [Update [SetStatus Failed, SetErrorMessage err], Emit (ProcessingError err)],
              Throws err)
         | ProbeResolved m \<Rightarrow>
             (let (evs, r) = analyzeSensitivity e;
                  u = [SetStatus Completed, SetProcessProgress (Fin 100),
                       SetSensitivityFlag (verdict_flag r), SetMetadata m,
                       SetDuration (meta_duration m), SetProcessedAt (Date_now e)];
                  done = Complete (verdict_flag r) (confidence r) (detectedIssues r)
                           (verdict_details r) (meta_duration m) (meta_width m, meta_height m)
                           (codec m)
              in (start @ map Emit evs @ [Emit (Progress (Fin 100) Finalizing), Update u, Emit done],
                  Returns (findByIdAndUpdate u
                    (findByIdAndUpdate [SetStatus Processing, SetProcessProgress (Fin 0)] v)))))"

section \<open>Reading a trace\<close>

text \<open>The record after the updates of a trace, and the events of a trace.\<close>

fun store_after :: "effect list \<Rightarrow> video \<Rightarrow> video" where
  "store_after [] v = v"
| "store_after (Update u # es) v = store_after es (findByIdAndUpdate u v)"
| "store_after (Emit ev # es) v = store_after es v"

fun updates_of :: "effect list \<Rightarrow> field_update list list" where
  "updates_of [] = []"
| "updates_of (Update u # es) = u # updates_of es"
| "updates_of (Emit ev # es) = updates_of es"

fun events_of :: "effect list \<Rightarrow> event list" where
  "events_of [] = []"
| "events_of (Update u # es) = events_of es"
| "events_of (Emit ev # es) = ev # events_of es"

fun progress_values :: "event list \<Rightarrow> jsnum list" where
  "progress_values [] = []"
| "progress_values (Progress p s # evs) = p # progress_values evs"
| "progress_values (ev # evs) = progress_values evs"

fun is_terminal :: "event \<Rightarrow> bool" where
  "is_terminal (Progress p s) = False"
| "is_terminal ev = True"

text \<open>Adjacent values never decrease (\<open><=\<close> of the language).\<close>

fun nondecreasing :: "jsnum list \<Rightarrow> bool" where
  "nondecreasing (x # y # ys) = (jle x y \<and> nondecreasing (y # ys))"
| "nondecreasing ys = True"

text \<open>The values an update writes to \<open>processProgress\<close>.\<close>

fun progress_written :: "field_update list \<Rightarrow> jsnum list" where
  "progress_written [] = []"
| "progress_written (SetProcessProgress p # fs) = p # progress_written fs"
| "progress_written (f # fs) = progress_written fs"

text \<open>The field an assignment of an update document sets.\<close>

datatype field = FStatus | FProcessProgress | FSensitivityFlag | FMetadata | FDuration
  | FProcessedAt | FErrorMessage

fun field_of :: "field_update \<Rightarrow> field" where
  "field_of (SetStatus s) = FStatus"
| "field_of (SetProcessProgress p) = FProcessProgress"
| "field_of (SetSensitivityFlag f) = FSensitivityFlag"
| "field_of (SetMetadata m) = FMetadata"
| "field_of (SetDuration d) = FDuration"
| "field_of (SetProcessedAt t) = FProcessedAt"
| "field_of (SetErrorMessage e) = FErrorMessage"

fun returned :: "run_end \<Rightarrow> bool" where
  "returned (Returns v) = True"
| "returned r = False"

text \<open>The record as a reader of the store finds it after each effect of a trace.\<close>

fun store_states :: "effect list \<Rightarrow> video \<Rightarrow> video list" where
  "store_states [] v = []"
| "store_states (Update u # es) v = findByIdAndUpdate u v # store_states es (findByIdAndUpdate u v)"
| "store_states (Emit ev # es) v = v # store_states es v"

section \<open>Reading the frame loop\<close>

text \<open>The answers of the classifier to the calls of the frame loop, in order.\<close>

definition outcomes :: "env \<Rightarrow> frame list \<Rightarrow> api_outcome list" where
  "outcomes e frames = map (\<lambda>(i, f). callHuggingFaceAPI e i (buffer f)) (enumerate 0 frames)"

text \<open>The variables of \<open>analyzeSensitivity\<close> after the frame loop, and the average it computes.\<close>

definition loop_tally :: "env \<Rightarrow> tally" where
  "loop_tally e =
     (case snd (extractFrames e 5) of
        Inl err \<Rightarrow> empty_tally
      | Inr frames \<Rightarrow> snd (frame_loop e (length frames) 0 frames empty_tally))"

definition average_of :: "tally \<Rightarrow> jsnum" where
  "average_of t = jdiv (totalNsfwScore t) (Fin (of_nat (apiSuccessCount t)))"

text \<open>The run takes its verdict from the classifier: a key, frames, and a call that returned.\<close>

definition real_path :: "env \<Rightarrow> bool" where
  "real_path e = (\<not> no_apiKey e \<and> 0 < apiSuccessCount (loop_tally e))"

text \<open>What one answer of the classifier does to the variables of the loop.\<close>

fun tally_outcome :: "nat \<times> api_outcome \<Rightarrow> tally \<Rightarrow> tally" where
  "tally_outcome (j, ApiThrows) t = t"
| "tally_outcome (j, ApiReturns r) t = tally_frame j r t"

text \<open>The answers to the calls of a run, none when no frames were extracted.\<close>

definition loop_outcomes :: "env \<Rightarrow> api_outcome list" where
  "loop_outcomes e =
     (case snd (extractFrames e 5) of Inl err \<Rightarrow> [] | Inr frames \<Rightarrow> outcomes e frames)"

text \<open>
  A frame classifies successfully: the call returns and the two scores are read from the
  response.
\<close>

fun classified :: "api_outcome \<Rightarrow> bool" where
  "classified ApiThrows = False"
| "classified (ApiReturns r) = (frame_scores r \<noteq> None)"

text \<open>Every score of the items of the answers to a run is a number, not \<open>NaN\<close>.\<close>

fun numeric_item :: "item \<Rightarrow> bool" where
  "numeric_item Unreadable = True"
| "numeric_item (Entry lbl sc) = (sc \<noteq> NaN)"

fun numeric_outcome :: "api_outcome \<Rightarrow> bool" where
  "numeric_outcome (ApiReturns (ResultArray its)) = list_all numeric_item its"
| "numeric_outcome out = True"

definition numeric_scores :: "env \<Rightarrow> bool" where
  "numeric_scores e = list_all numeric_outcome (loop_outcomes e)"

section \<open>Example inputs\<close>

text \<open>A record as the upload handler creates it, with the defaults of the schema.\<close>

definition job0 :: video where
  "job0 = \<lparr>status = StatusPending, processProgress = Fin 0, sensitivityFlag = Pending,
     video_metadata = None, duration = Some 0, processedAt = None, errorMessage = None\<rparr>"

definition probe_ok :: probe_data where
  "probe_ok =
     \<lparr>streams = [\<lparr>codec_type = ''video'', width = Some 640, height = Some 480,
                   r_frame_rate = Some ''30000/1001'', codec_name = Some ''h264''\<rparr>],
      format_duration = Some 10, format_bit_rate = Some 800000\<rparr>"

text \<open>A process without an API key.\<close>

definition env_no_key :: env where
  "env_no_key =
     \<lparr>apiKey = None, ffprobe = Inr probe_ok, host_eval = (\<lambda>s. EvalThrows),
      screenshots = Inl ''ffmpeg exited with code 1'', callHuggingFaceAPI = (\<lambda>i b. ApiThrows),
      Math_random = (\<lambda>k. 1 / 2), Date_now = 1700000000\<rparr>"

text \<open>A file that \<open>ffprobe\<close> cannot read.\<close>

definition env_probe_fails :: env where
  "env_probe_fails = env_no_key\<lparr>ffprobe := Inl ''ffprobe exited with code 1''\<rparr>"

text \<open>A process with an API key, five frames on disk, and a classifier that never answers.\<close>

definition env_calls_fail :: env where
  "env_calls_fail =
     env_no_key\<lparr>apiKey := Some ''hf_key'', screenshots := Inr (\<lambda>i. Some ''jpeg'')\<rparr>"

text \<open>A video stream whose frame rate \<open>ffprobe\<close> reports as \<open>0/0\<close>.\<close>

definition probe_zero_rate :: probe_data where
  "probe_zero_rate =
     \<lparr>streams = [\<lparr>codec_type = ''video'', width = Some 640, height = Some 480,
                   r_frame_rate = Some ''0/0'', codec_name = Some ''mjpeg''\<rparr>],
      format_duration = Some 10, format_bit_rate = Some 800000\<rparr>"

definition env_zero_rate :: env where
  "env_zero_rate = env_no_key\<lparr>ffprobe := Inr probe_zero_rate\<rparr>"

text \<open>A video stream for which \<open>ffprobe\<close> reports no frame rate.\<close>

definition probe_no_rate :: probe_data where
  "probe_no_rate =
     \<lparr>streams = [\<lparr>codec_type = ''video'', width = Some 640, height = Some 480,
                   r_frame_rate = None, codec_name = Some ''h264''\<rparr>],
      format_duration = Some 10, format_bit_rate = Some 800000\<rparr>"

definition env_no_rate :: env where
  "env_no_rate = env_no_key\<lparr>ffprobe := Inr probe_no_rate\<rparr>"

text \<open>A process without an API key whose random numbers are 127/128.\<close>

definition env_mock_high :: env where
  "env_mock_high = env_no_key\<lparr>Math_random := (\<lambda>k. 127 / 128)\<rparr>"

text \<open>
  A process with an API key and five frames; only the call for the third frame returns,
  with the list answer of the given score under the label \<open>nsfw\<close>.
\<close>

definition env_third_frame :: "rat \<Rightarrow> env" where
  "env_third_frame s =
     env_calls_fail
       \<lparr>callHuggingFaceAPI :=
          (\<lambda>i b. if i = 2
                 then ApiReturns (ResultArray [Entry (Some ''nsfw'') (rnd s),
                                               Entry (Some ''normal'') (rnd (1 - s))])
                 else ApiThrows)\<rparr>"

text \<open>A process with an API key whose screenshot command fails.\<close>

definition env_no_frames :: env where
  "env_no_frames = env_no_key\<lparr>apiKey := Some ''hf_key''\<rparr>"

text \<open>
  A process with an API key and five frames; every call returns the body \<open>[null]\<close>,
  a list whose entry cannot be read.
\<close>

definition env_unreadable :: env where
  "env_unreadable =
     env_calls_fail\<lparr>callHuggingFaceAPI := (\<lambda>i b. ApiReturns (ResultArray [Unreadable]))\<rparr>"

text \<open>
  A process with an API key and five frames; the call for the third frame returns the
  list answer of score 0.8 under the label \<open>nsfw\<close>, every other call returns \<open>[null]\<close>.
\<close>

definition env_one_readable :: env where
  "env_one_readable =
     env_calls_fail
       \<lparr>callHuggingFaceAPI :=
          (\<lambda>i b. if i = 2
                 then ApiReturns (ResultArray [Entry (Some ''nsfw'') (rnd (8 / 10)),
                                               Entry (Some ''normal'') (rnd (2 / 10))])
                 else ApiReturns (ResultArray [Unreadable]))\<rparr>"

text \<open>
  A process with an API key and five frames; every call returns \<open>[{"label": "nsfw"}]\<close>,
  an entry without a score.
\<close>

definition env_missing_score :: env where
  "env_missing_score =
     env_calls_fail
       \<lparr>callHuggingFaceAPI := (\<lambda>i b. ApiReturns (ResultArray [Entry (Some ''nsfw'') NaN]))\<rparr>"

section \<open>Rounding: bounds, monotonicity, certificates\<close>

lemma rne_near:
  assumes "\<bar>x - of_int n\<bar> < 1 / 2"
  shows "rne x = n"
proof (cases "of_int n \<le> x")
  case True
  with assms have "\<lfloor>x\<rfloor> = n" by (intro floor_unique) auto
  with assms True show ?thesis by (simp add: rne_def Let_def)
next
  case False
  with assms have f: "\<lfloor>x\<rfloor> = n - 1" by (intro floor_unique) auto
  from assms False have "1 / 2 < x - of_int (n - 1)" by simp
  with f show ?thesis by (simp add: rne_def Let_def)
qed

lemma rne_tie:
  assumes "\<bar>x - of_int n\<bar> = 1 / 2" and "even n"
  shows "rne x = n"
proof (cases "of_int n \<le> x")
  case True
  with assms have f: "\<lfloor>x\<rfloor> = n" by (intro floor_unique) auto
  from assms True have "x - of_int n = 1 / 2" by simp
  with f assms(2) show ?thesis by (simp add: rne_def Let_def)
next
  case False
  with assms have f: "\<lfloor>x\<rfloor> = n - 1" by (intro floor_unique) auto
  from assms False have "x - of_int (n - 1) = 1 / 2" by simp
  with f assms(2) show ?thesis by (simp add: rne_def Let_def)
qed

lemma rne_lower: "\<lfloor>x\<rfloor> \<le> rne x"
  by (simp add: rne_def Let_def)

lemma rne_upper: "rne x \<le> \<lfloor>x\<rfloor> + 1"
  by (simp add: rne_def Let_def)

lemma rne_of_int: "rne (of_int n) = n"
  by (rule rne_near) simp

lemma rne_mono:
  assumes "x \<le> y"
  shows "rne x \<le> rne y"
proof (cases "\<lfloor>x\<rfloor> = \<lfloor>y\<rfloor>")
  case True
  with assms have "x - of_int \<lfloor>x\<rfloor> \<le> y - of_int \<lfloor>y\<rfloor>" by simp
  with True show ?thesis by (auto simp: rne_def Let_def)
next
  case False
  with assms have "\<lfloor>x\<rfloor> + 1 \<le> \<lfloor>y\<rfloor>" using floor_mono [OF assms] by linarith
  with rne_upper [of x] rne_lower [of y] show ?thesis by linarith
qed

lemma pow2_le_of_int: "(2::int) ^ n \<le> k \<Longrightarrow> (2::rat) ^ n \<le> of_int k"
  by (metis of_int_le_iff of_int_numeral of_int_power)

lemma of_int_le_pow2: "k \<le> (2::int) ^ n \<Longrightarrow> (of_int k :: rat) \<le> 2 ^ n"
  by (metis of_int_le_iff of_int_numeral of_int_power)

lemma ilog2_bounds:
  assumes "0 < x"
  shows "2 powi (ilog2 x) \<le> x" and "x < 2 powi (ilog2 x + 1)"
proof -
  have "2 powi (ilog2 x) \<le> x \<and> x < 2 powi (ilog2 x + 1)"
  proof (cases "1 \<le> x")
    case True
    define m where "m = \<lfloor>x\<rfloor>"
    from True have m: "0 < m" by (simp add: m_def)
    then have b: "1 \<le> bitlen m" by (simp add: bitlen_alt_def)
    from bitlen_bounds [OF m] have lo: "2 ^ nat (bitlen m - 1) \<le> m" and hi: "m < 2 ^ nat (bitlen m)"
      by auto
    have il: "ilog2 x = bitlen m - 1" using True by (simp add: ilog2_def m_def)
    have "(2::rat) powi (bitlen m - 1) = 2 ^ nat (bitlen m - 1)"
      using b by (simp add: power_int_def)
    also have "\<dots> \<le> of_int m" using lo by (rule pow2_le_of_int)
    also have "\<dots> \<le> x" unfolding m_def by linarith
    finally have 1: "2 powi (ilog2 x) \<le> x" by (simp add: il)
    from hi have "m + 1 \<le> 2 ^ nat (bitlen m)" by simp
    then have "(of_int (m + 1) :: rat) \<le> 2 ^ nat (bitlen m)" by (rule of_int_le_pow2)
    moreover have "x < of_int (m + 1)" unfolding m_def by linarith
    moreover have "(2::rat) powi (bitlen m) = 2 ^ nat (bitlen m)"
      using b by (simp add: power_int_def)
    ultimately have "x < 2 powi (ilog2 x + 1)" by (simp add: il)
    with 1 show ?thesis by simp
  next
    case False
    define y where "y = 1 / x"
    define k where "k = \<lceil>y\<rceil> - 1"
    from False assms have y1: "1 < y" by (simp add: y_def)
    then have "1 < \<lceil>y\<rceil>" by (simp add: less_ceiling_iff)
    then have k: "0 < k" by (simp add: k_def)
    then have b: "1 \<le> bitlen k" by (simp add: bitlen_alt_def)
    from bitlen_bounds [OF k] have lo: "2 ^ nat (bitlen k - 1) \<le> k" and hi: "k < 2 ^ nat (bitlen k)"
      by auto
    have il: "ilog2 x = - bitlen k" using False by (simp add: ilog2_def k_def y_def)
    have ky: "of_int k < y" unfolding k_def by linarith
    have yk: "y \<le> of_int (k + 1)" unfolding k_def by linarith
    have "(2::rat) ^ nat (bitlen k - 1) \<le> of_int k" using lo by (rule pow2_le_of_int)
    with ky have A: "(2::rat) ^ nat (bitlen k - 1) < y" by linarith
    from hi have "k + 1 \<le> 2 ^ nat (bitlen k)" by simp
    then have "(of_int (k + 1) :: rat) \<le> 2 ^ nat (bitlen k)" by (rule of_int_le_pow2)
    with yk have B: "y \<le> (2::rat) ^ nat (bitlen k)" by linarith
    have x: "x = 1 / y" by (simp add: y_def)
    have "(2::rat) powi (- bitlen k) = 1 / 2 ^ nat (bitlen k)"
      using b by (simp add: power_int_def field_simps)
    also have "\<dots> \<le> 1 / y" using B y1 by (intro divide_left_mono) auto
    finally have 1: "2 powi (ilog2 x) \<le> x" by (simp only: il x [symmetric])
    have "1 / y < 1 / (2::rat) ^ nat (bitlen k - 1)" using A y1 by (intro divide_strict_left_mono) auto
    also have "\<dots> = 2 powi (- bitlen k + 1)"
    proof (cases "bitlen k = 1")
      case True
      then show ?thesis by simp
    next
      case False
      with b have "- bitlen k + 1 < 0" by simp
      moreover have "nat (- (- bitlen k + 1)) = nat (bitlen k - 1)" by simp
      ultimately show ?thesis by (simp add: power_int_def field_simps)
    qed
    finally have "x < 2 powi (ilog2 x + 1)" by (simp only: il x [symmetric])
    with 1 show ?thesis by simp
  qed
  then show "2 powi (ilog2 x) \<le> x" and "x < 2 powi (ilog2 x + 1)" by auto
qed


lemma ilog2_unique:
  assumes "0 < x" and "2 powi e \<le> x" and "x < 2 powi (e + 1)"
  shows "ilog2 x = e"
proof (rule ccontr)
  assume ne: "ilog2 x \<noteq> e"
  show False
  proof (cases "ilog2 x < e")
    case True
    then have "(2::rat) powi (ilog2 x + 1) \<le> 2 powi e"
      by (intro power_int_increasing) auto
    with ilog2_bounds(2) [OF assms(1)] assms(2) show False by linarith
  next
    case False
    with ne have "(2::rat) powi (e + 1) \<le> 2 powi ilog2 x"
      by (intro power_int_increasing) auto
    with ilog2_bounds(1) [OF assms(1)] assms(3) show False by linarith
  qed
qed

lemma ilog2_mono:
  assumes "0 < x" and "x \<le> y"
  shows "ilog2 x \<le> ilog2 y"
proof (rule ccontr)
  assume "\<not> ilog2 x \<le> ilog2 y"
  then have "(2::rat) powi (ilog2 y + 1) \<le> 2 powi ilog2 x"
    by (intro power_int_increasing) auto
  moreover from assms have "0 < y" by simp
  ultimately show False
    using ilog2_bounds(1) [OF assms(1)] ilog2_bounds(2) [of y] assms(2) by linarith
qed

lemma fl_nonneg: "0 \<le> x \<Longrightarrow> 0 \<le> fl x"
proof -
  assume x: "0 \<le> x"
  have "0 \<le> x / 2 powi ulp_exp x" using x by simp
  then have "0 \<le> \<lfloor>x / 2 powi ulp_exp x\<rfloor>" by simp
  with rne_lower [of "x / 2 powi ulp_exp x"] have "0 \<le> rne (x / 2 powi ulp_exp x)" by linarith
  then show ?thesis by (simp add: fl_def)
qed

lemma fl_upper:
  assumes "0 < x"
  shows "fl x \<le> 2 powi (ulp_exp x + 53)"
proof -
  let ?u = "(2::rat) powi ulp_exp x"
  have "ilog2 x + 1 \<le> ulp_exp x + 53" using assms by (simp add: ulp_exp_def)
  then have "(2::rat) powi (ilog2 x + 1) \<le> 2 powi (ulp_exp x + 53)"
    by (intro power_int_increasing) auto
  with ilog2_bounds(2) [OF assms] have "x \<le> 2 powi (ulp_exp x + 53)" by linarith
  also have "\<dots> = 2 ^ 53 * ?u" by (simp add: power_int_add)
  finally have "x / ?u \<le> of_int (2 ^ 53)" by (simp add: field_simps)
  from rne_mono [OF this] have "rne (x / ?u) \<le> 2 ^ 53" by (simp only: rne_of_int)
  then have "(of_int (rne (x / ?u)) :: rat) \<le> 2 ^ 53" by (rule of_int_le_pow2)
  then have "of_int (rne (x / ?u)) * ?u \<le> 2 ^ 53 * ?u" by (intro mult_right_mono) auto
  also have "\<dots> = 2 powi (ulp_exp x + 53)" by (simp add: power_int_add)
  finally show ?thesis using assms by (simp add: fl_def)
qed

lemma fl_lower:
  assumes "0 < x" and "- 1022 \<le> ilog2 x"
  shows "2 powi (ulp_exp x + 52) \<le> fl x"
proof -
  let ?u = "(2::rat) powi ulp_exp x"
  have e: "ulp_exp x + 52 = ilog2 x" using assms by (simp add: ulp_exp_def)
  have "2 ^ 52 * ?u = 2 powi (ulp_exp x + 52)" by (simp add: power_int_add)
  also have "\<dots> \<le> x" using ilog2_bounds(1) [OF assms(1)] by (simp only: e)
  finally have "of_int (2 ^ 52) \<le> x / ?u" by (simp add: field_simps)
  from rne_mono [OF this] have "2 ^ 52 \<le> rne (x / ?u)" by (simp only: rne_of_int)
  then have "(2::rat) ^ 52 \<le> of_int (rne (x / ?u))" by (rule pow2_le_of_int)
  then have A: "2 ^ 52 * ?u \<le> of_int (rne (x / ?u)) * ?u" by (intro mult_right_mono) auto
  have B: "2 ^ 52 * ?u = 2 powi (ulp_exp x + 52)" by (simp add: power_int_add)
  have C: "fl x = of_int (rne (x / ?u)) * ?u" using assms by (simp add: fl_def)
  from A B C show ?thesis by linarith
qed

lemma fl_mono_pos:
  assumes "0 < x" and "x \<le> y"
  shows "fl x \<le> fl y"
proof -
  from assms have y: "0 < y" by simp
  have le: "ulp_exp x \<le> ulp_exp y"
    using ilog2_mono [OF assms] assms y by (simp add: ulp_exp_def)
  show ?thesis
  proof (cases "ulp_exp x = ulp_exp y")
    case True
    let ?u = "(2::rat) powi ulp_exp y"
    have "x / ?u \<le> y / ?u" using assms by (simp add: divide_right_mono)
    from rne_mono [OF this] have "(of_int (rne (x / ?u)) :: rat) \<le> of_int (rne (y / ?u))"
      by simp
    then have "of_int (rne (x / ?u)) * ?u \<le> of_int (rne (y / ?u)) * ?u"
      by (intro mult_right_mono) auto
    with True assms y show ?thesis by (simp add: fl_def)
  next
    case False
    with le have lt: "ulp_exp x < ulp_exp y" by simp
    then have "- 1022 \<le> ilog2 y" using y by (simp add: ulp_exp_def max_def split: if_splits)
    from fl_lower [OF y this] have "2 powi (ulp_exp y + 52) \<le> fl y" .
    moreover have "(2::rat) powi (ulp_exp x + 53) \<le> 2 powi (ulp_exp y + 52)"
      using lt by (intro power_int_increasing) auto
    ultimately show ?thesis using fl_upper [OF assms(1)] by linarith
  qed
qed

lemma fl_mono:
  assumes "0 \<le> x" and "x \<le> y"
  shows "fl x \<le> fl y"
proof (cases "x = 0")
  case True
  with assms fl_nonneg [of y] show ?thesis by (simp add: fl_def)
next
  case False
  with assms have "0 < x" by simp
  then show ?thesis using assms(2) by (rule fl_mono_pos)
qed

text \<open>
  A rounding is checked rather than computed: given the exponent and the integer, two
  comparisons of numerals settle it.
\<close>

lemma fl_cert:
  assumes "0 < x" and "2 powi e \<le> x" and "x < 2 powi (e + 1)" and "- 1022 \<le> e"
    and "\<bar>x / 2 powi (e - 52) - of_int n\<bar> < 1 / 2"
  shows "fl x = of_int n * 2 powi (e - 52)"
proof -
  have "ilog2 x = e" using assms(1-3) by (rule ilog2_unique)
  then have u: "ulp_exp x = e - 52" using assms(1,4) by (simp add: ulp_exp_def)
  from assms(5) have "rne (x / 2 powi (e - 52)) = n" by (rule rne_near)
  with u assms(1) show ?thesis by (simp add: fl_def)
qed

lemma fl_cert_tie:
  assumes "0 < x" and "2 powi e \<le> x" and "x < 2 powi (e + 1)" and "- 1022 \<le> e"
    and "\<bar>x / 2 powi (e - 52) - of_int n\<bar> = 1 / 2" and "even n"
  shows "fl x = of_int n * 2 powi (e - 52)"
proof -
  have "ilog2 x = e" using assms(1-3) by (rule ilog2_unique)
  then have u: "ulp_exp x = e - 52" using assms(1,4) by (simp add: ulp_exp_def)
  from assms(5,6) have "rne (x / 2 powi (e - 52)) = n" by (rule rne_tie)
  with u assms(1) show ?thesis by (simp add: fl_def)
qed

lemma floor_rat_numeral: "\<lfloor>(numeral a :: rat) / numeral b\<rfloor> = numeral a div numeral b"
  by (metis floor_divide_of_int_eq of_int_numeral)

lemma rnd_not_NaN: "rnd x \<noteq> NaN"
  by (simp add: rnd_def Let_def)

lemma rnd_nonneg: "0 \<le> x \<Longrightarrow> nonneg (rnd x)"
  using fl_nonneg [of x] by (simp add: rnd_def Let_def)

lemma rnd_Fin:
  assumes "0 \<le> x" and "x \<le> y" and "fl y < 2 ^ 1024"
  shows "rnd x = Fin (fl x)"
proof -
  have "fl x \<le> fl y" using assms(1,2) by (rule fl_mono)
  with assms(3) fl_nonneg [OF assms(1)] show ?thesis by (simp add: rnd_def Let_def)
qed

lemma fl_half: "fl (1 / 2) = 1 / 2"
  using fl_cert [of "1 / 2" "- 1" 4503599627370496] by simp

lemma fl_c06: "fl (3 / 5) = 5404319552844595 / 9007199254740992"
  using fl_cert [of "3 / 5" "- 1" 5404319552844595] by simp

lemma fl_c11: "fl (11 / 10) = 2476979795053773 / 2251799813685248"
  using fl_cert [of "11 / 10" "0" 4953959590107546] by simp

lemma fl_c099: "fl (99 / 100) = 4458563631096791 / 4503599627370496"
  using fl_cert [of "99 / 100" "- 1" 8917127262193582] by simp

lemma fl_c03: "fl (3 / 10) = 5404319552844595 / 18014398509481984"
  using fl_cert [of "3 / 10" "- 2" 5404319552844595] by simp

lemma fl_c07: "fl (7 / 10) = 3152519739159347 / 4503599627370496"
  using fl_cert [of "7 / 10" "- 1" 6305039478318694] by simp

lemma fl_c095: "fl (19 / 20) = 4278419646001971 / 4503599627370496"
  using fl_cert [of "19 / 20" "- 1" 8556839292003942] by simp

lemma fl_one: "fl 1 = 1"
  using fl_cert [of "1" "0" 4503599627370496] by simp

lemma rnd_half: "rnd (1 / 2) = Fin (1 / 2)"
  by (simp add: rnd_def fl_half)

lemma rnd_c06: "rnd (3 / 5) = Fin (5404319552844595 / 9007199254740992)"
  by (simp add: rnd_def fl_c06)

lemma rnd_c11: "rnd (11 / 10) = Fin (2476979795053773 / 2251799813685248)"
  by (simp add: rnd_def fl_c11)

lemma rnd_c099: "rnd (99 / 100) = Fin (4458563631096791 / 4503599627370496)"
  by (simp add: rnd_def fl_c099)

lemma rnd_c03: "rnd (3 / 10) = Fin (5404319552844595 / 18014398509481984)"
  by (simp add: rnd_def fl_c03)

lemma rnd_c07: "rnd (7 / 10) = Fin (3152519739159347 / 4503599627370496)"
  by (simp add: rnd_def fl_c07)

lemma rnd_c095: "rnd (19 / 20) = Fin (4278419646001971 / 4503599627370496)"
  by (simp add: rnd_def fl_c095)

lemma rnd_zero: "rnd 0 = Fin 0"
  by (simp add: rnd_def fl_def)

lemma Math_max_nonneg: "nonneg x \<Longrightarrow> y \<noteq> NaN \<Longrightarrow> nonneg (Math_max x y)"
  by (cases x; cases y) (auto simp: Math_max_def)

lemma jmul_half_not_NaN: "x \<noteq> NaN \<Longrightarrow> jmul x (Fin (1 / 2)) \<noteq> NaN"
  by (cases x) (simp_all add: rnd_not_NaN signed_inf_def)

lemma jadd_nonneg: "nonneg x \<Longrightarrow> nonneg y \<Longrightarrow> nonneg (jadd x y)"
  by (cases x; cases y) (simp_all add: rnd_nonneg)

lemma scan_items_nonneg:
  "list_all numeric_item its \<Longrightarrow> nonneg (fst acc) \<Longrightarrow> scan_items its acc = Some p \<Longrightarrow>
   nonneg (fst p)"
proof (induction its acc rule: scan_items.induct)
  case (1 acc)
  then show ?case by simp
next
  case (2 its acc)
  then show ?case by simp
next
  case (3 lbl sc its nsfwScore normalScore)
  then show ?case
    by (simp add: Let_def Math_max_nonneg jmul_half_not_NaN rnd_half split: if_splits)
qed

lemma number_or_zero_not_NaN: "number_or_zero v \<noteq> NaN"
  by (simp add: number_or_zero_def rnd_not_NaN split: option.splits)

lemma scan_entries_nonneg: "nonneg (fst acc) \<Longrightarrow> nonneg (fst (scan_entries es acc))"
proof (induction es acc rule: scan_entries.induct)
  case (1 acc)
  then show ?case by simp
next
  case (2 key v es nsfwScore normalScore)
  then show ?case by (simp add: Let_def Math_max_nonneg number_or_zero_not_NaN)
qed

lemma frame_scores_nonneg:
  assumes "numeric_outcome (ApiReturns result)" and "frame_scores result = Some p"
  shows "nonneg (fst p)"
proof (cases result)
  case (ResultArray its)
  with assms(2) obtain q where q: "scan_items its (Fin 0, Fin 0) = Some q" and "fst p = fst q"
    by (auto simp: frame_scores_def split: option.splits if_splits)
  with scan_items_nonneg [of its "(Fin 0, Fin 0)" q] assms(1) ResultArray show ?thesis
    by simp
next
  case (ResultObject es)
  with assms(2) have "fst p = fst (scan_entries es (Fin 0, Fin 0))"
    by (auto simp: frame_scores_def case_prod_unfold split: if_splits)
  with scan_entries_nonneg [of "(Fin 0, Fin 0)" es] show ?thesis by simp
next
  case ResultUndefined
  with assms(2) show ?thesis by (simp add: frame_scores_def)
next
  case ResultOther
  with assms(2) show ?thesis by (auto simp: frame_scores_def jeq_def)
qed

lemma tally_frame_nonneg:
  assumes "numeric_outcome (ApiReturns result)" and "nonneg (totalNsfwScore t)"
  shows "nonneg (totalNsfwScore (tally_frame i result t))"
proof (cases "frame_scores result")
  case None
  with assms(2) show ?thesis by (simp add: tally_frame_def)
next
  case (Some p)
  from frame_scores_nonneg [OF assms(1) Some] assms(2) Some show ?thesis
    by (simp add: tally_frame_def Let_def jadd_nonneg case_prod_unfold)
qed

lemma frame_tally_nonneg:
  "numeric_outcome (callHuggingFaceAPI e i (buffer f)) \<Longrightarrow> nonneg (totalNsfwScore t) \<Longrightarrow>
   nonneg (totalNsfwScore (frame_tally e i f t))"
  by (cases "callHuggingFaceAPI e i (buffer f)") (simp_all add: frame_tally_def tally_frame_nonneg)

lemma frame_loop_nonneg:
  "list_all numeric_outcome (map (\<lambda>(j, f). callHuggingFaceAPI e j (buffer f)) (enumerate i fs)) \<Longrightarrow>
   nonneg (totalNsfwScore t) \<Longrightarrow> nonneg (totalNsfwScore (snd (frame_loop e n i fs t)))"
  by (induction fs arbitrary: i t) (simp_all add: case_prod_unfold Let_def frame_tally_nonneg)

lemma jdiv_count_nonneg: "nonneg x \<Longrightarrow> 0 < k \<Longrightarrow> nonneg (jdiv x (Fin (of_nat k)))"
  by (cases x) (auto simp: rnd_nonneg signed_inf_def)

lemma Math_min_bounded:
  assumes "nonneg x" and "0 \<le> c"
  shows "\<exists>m. Math_min x (Fin c) = Fin m \<and> 0 \<le> m \<and> m \<le> c"
  using assms by (cases x) (auto simp: Math_min_def)

lemma toFixed3_bounded:
  assumes "0 \<le> m" and "m \<le> fl (99 / 100)"
  obtains c where "toFixed_parseFloat 3 (Fin m) = Fin c" "0 \<le> c" "c \<le> fl (99 / 100)"
proof -
  define k where "k = \<lfloor>\<bar>m\<bar> * 10 ^ 3 + 1 / 2\<rfloor>"
  have m99: "m < 99 / 100" using assms(2) by (simp add: fl_c099)
  have k0: "0 \<le> k" using assms(1) by (simp add: k_def)
  have "\<bar>m\<bar> * 10 ^ 3 + 1 / 2 < of_int 991" using assms(1) m99 by simp
  then have "k < 991" unfolding k_def by (simp only: floor_less_iff)
  then have k1: "k \<le> 990" by simp
  define y where "y = sgn m * of_int k / 10 ^ 3"
  have y0: "0 \<le> y" using assms(1) k0 by (simp add: y_def sgn_if)
  have "y \<le> of_int k / 10 ^ 3" using k0 by (simp add: y_def sgn_if)
  also have "\<dots> \<le> 99 / 100" using k1 by simp
  finally have y1: "y \<le> 99 / 100" .
  have r: "rnd y = Fin (fl y)" using y0 y1 by (rule rnd_Fin) (simp add: fl_c099)
  have small: "\<not> 10 ^ 21 \<le> \<bar>m\<bar>" using assms(1) m99 by simp
  have "toFixed_parseFloat 3 (Fin m) = Fin (fl y)"
    using small r by (simp add: y_def k_def)
  moreover have "0 \<le> fl y" using y0 by (rule fl_nonneg)
  moreover have "fl y \<le> fl (99 / 100)" using y0 y1 by (rule fl_mono)
  ultimately show ?thesis by (rule that)
qed

section \<open>Traces\<close>

lemma store_after_append: "store_after (xs @ ys) v = store_after ys (store_after xs v)"
  by (induction xs v rule: store_after.induct) simp_all

lemma updates_of_append: "updates_of (xs @ ys) = updates_of xs @ updates_of ys"
  by (induction xs rule: updates_of.induct) simp_all

lemma events_of_append: "events_of (xs @ ys) = events_of xs @ events_of ys"
  by (induction xs rule: events_of.induct) simp_all

lemma store_states_append:
  "store_states (xs @ ys) v = store_states xs v @ store_states ys (store_after xs v)"
  by (induction xs v rule: store_states.induct) simp_all

lemma store_after_emits: "store_after (map Emit evs) v = v"
  by (induction evs) simp_all

lemma updates_of_emits: "updates_of (map Emit evs) = []"
  by (induction evs) simp_all

lemma events_of_emits: "events_of (map Emit evs) = evs"
  by (induction evs) simp_all

lemma store_states_emits: "set (store_states (map Emit evs) v) \<subseteq> {v}"
  by (induction evs) auto

lemma processVideo_cases:
  obtains (throws) err where "getVideoMetadata e = ProbeRejected err"
      "processVideo e v =
        ([Update [SetStatus Processing, SetProcessProgress (Fin 0)],
          Emit (Progress (Fin 0) Starting), Emit (Progress (Fin 20) ExtractingMetadata),
          Update [SetStatus Failed, SetErrorMessage err], Emit (ProcessingError err)],
         Throws err)"
  | (hangs) "getVideoMetadata e = ProbeCallbackThrows"
      "processVideo e v =
        ([Update [SetStatus Processing, SetProcessProgress (Fin 0)],
          Emit (Progress (Fin 0) Starting), Emit (Progress (Fin 20) ExtractingMetadata)],
         NeverSettles)"
  | (returns) m evs r where "getVideoMetadata e = ProbeResolved m"
      "analyzeSensitivity e = (evs, r)"
      "processVideo e v =
        ([Update [SetStatus Processing, SetProcessProgress (Fin 0)],
          Emit (Progress (Fin 0) Starting), Emit (Progress (Fin 20) ExtractingMetadata)]
         @ map Emit evs
         @ [Emit (Progress (Fin 100) Finalizing),
            Update [SetStatus Completed, SetProcessProgress (Fin 100),
                    SetSensitivityFlag (verdict_flag r), SetMetadata m,
                    SetDuration (meta_duration m), SetProcessedAt (Date_now e)],
            Emit (Complete (verdict_flag r) (confidence r) (detectedIssues r)
                    (verdict_details r) (meta_duration m) (meta_width m, meta_height m)
                    (codec m))],
         Returns (findByIdAndUpdate
                    [SetStatus Completed, SetProcessProgress (Fin 100),
                     SetSensitivityFlag (verdict_flag r), SetMetadata m,
                     SetDuration (meta_duration m), SetProcessedAt (Date_now e)]
                    (findByIdAndUpdate [SetStatus Processing, SetProcessProgress (Fin 0)] v)))"
proof (cases "getVideoMetadata e")
  case (ProbeResolved m)
  obtain evs r where "analyzeSensitivity e = (evs, r)" by (cases "analyzeSensitivity e")
  with ProbeResolved show ?thesis by (intro returns [of m evs r]) (simp_all add: processVideo_def Let_def)
next
  case (ProbeRejected err)
  then show ?thesis by (intro throws [of err]) (simp_all add: processVideo_def)
next
  case ProbeCallbackThrows
  then show ?thesis by (intro hangs) (simp_all add: processVideo_def)
qed

lemma returned_iff_resolved:
  "returned (snd (processVideo e v)) = (\<exists>m. getVideoMetadata e = ProbeResolved m)"
  by (cases e v rule: processVideo_cases) simp_all

lemma probe_env_no_key:
  "getVideoMetadata env_no_key =
     ProbeResolved
       \<lparr>meta_duration = Some 10, meta_width = Some 640, meta_height = Some 480,
        fps = jdiv (rnd 30000) (rnd 1001), bitrate = Some 800000, codec = Some ''h264''\<rparr>"
  by (simp add: getVideoMetadata_def env_no_key_def probe_ok_def frame_rate_text_def js_eval_def
      decimal_literal_def is_digit_def)

lemma probe_env_probe_fails:
  "getVideoMetadata env_probe_fails = ProbeRejected ''ffprobe exited with code 1''"
  by (simp add: getVideoMetadata_def env_probe_fails_def env_no_key_def)

lemma run_env_probe_fails:
  "processVideo env_probe_fails v =
     ([Update [SetStatus Processing, SetProcessProgress (Fin 0)],
       Emit (Progress (Fin 0) Starting), Emit (Progress (Fin 20) ExtractingMetadata),
       Update [SetStatus Failed, SetErrorMessage ''ffprobe exited with code 1''],
       Emit (ProcessingError ''ffprobe exited with code 1'')],
      Throws ''ffprobe exited with code 1'')"
  by (simp add: processVideo_def probe_env_probe_fails)

section \<open>The stored record: \<open>processedAt\<close>, the failed update, \<open>processProgress\<close>\<close>

text \<open>
  C8, as the specification states it: every job has its \<open>processedAt\<close> set exactly
  once, at the transition into a terminal state, by the transition to \<open>completed\<close> and by
  the transition to \<open>failed\<close> alike. The code sets it in the completion update only. On
  the run of a file that \<open>ffprobe\<close> cannot read, the job ends \<open>failed\<close>, no update of
  the run sets \<open>processedAt\<close>, and the record still has none.
\<close>

theorem C8_counterexample:
  "snd (processVideo env_probe_fails job0) = Throws ''ffprobe exited with code 1''
   \<and> status (store_after (fst (processVideo env_probe_fails job0)) job0) = Failed
   \<and> list_all (\<lambda>u. FProcessedAt \<notin> set (map field_of u))
        (updates_of (fst (processVideo env_probe_fails job0)))
   \<and> processedAt (store_after (fst (processVideo env_probe_fails job0)) job0) = None"
  by (simp add: run_env_probe_fails findByIdAndUpdate_def job0_def)

text \<open>
  C8, amended: \<open>processedAt\<close> is set by the update that moves the job to \<open>completed\<close>
  and by no other. A run that returns makes two updates; the second sets the status
  \<open>completed\<close> and sets \<open>processedAt\<close> once, to the time of the clock, and that is the
  value stored. A run that does not return makes no update that sets \<open>processedAt\<close>, and
  the record keeps the value it had.
\<close>

theorem C8_processedAt:
  "(returned (snd (processVideo e v)) \<longrightarrow>
      (\<exists>u. updates_of (fst (processVideo e v)) = [[SetStatus Processing, SetProcessProgress (Fin 0)], u]
         \<and> SetStatus Completed \<in> set u
         \<and> filter (\<lambda>f. field_of f = FProcessedAt) u = [SetProcessedAt (Date_now e)])
      \<and> processedAt (store_after (fst (processVideo e v)) v) = Some (Date_now e))
   \<and> (\<not> returned (snd (processVideo e v)) \<longrightarrow>
        list_all (\<lambda>u. FProcessedAt \<notin> set (map field_of u)) (updates_of (fst (processVideo e v)))
        \<and> processedAt (store_after (fst (processVideo e v)) v) = processedAt v)"
proof (cases e v rule: processVideo_cases)
  case (throws err)
  then show ?thesis by (simp add: findByIdAndUpdate_def)
next
  case hangs
  then show ?thesis by (simp add: findByIdAndUpdate_def)
next
  case (returns m evs r)
  then show ?thesis
    by (simp add: findByIdAndUpdate_def updates_of_append updates_of_emits store_after_append
        store_after_emits)
qed

theorem C8_processedAt_witness:
  "returned (snd (processVideo env_no_key job0))
   \<and> processedAt (store_after (fst (processVideo env_no_key job0)) job0) = Some 1700000000
   \<and> \<not> returned (snd (processVideo env_probe_fails job0))
   \<and> processedAt (store_after (fst (processVideo env_probe_fails job0)) job0) = None"
proof -
  have a: "returned (snd (processVideo env_no_key job0))"
    by (simp add: returned_iff_resolved probe_env_no_key)
  have b: "\<not> returned (snd (processVideo env_probe_fails job0))"
    by (simp add: returned_iff_resolved probe_env_probe_fails)
  have c: "Date_now env_no_key = 1700000000" "processedAt job0 = None"
    by (simp_all add: env_no_key_def job0_def)
  from a b c C8_processedAt [of env_no_key job0] C8_processedAt [of env_probe_fails job0]
  show ?thesis by simp
qed

text \<open>
  C9: when the pipeline fails, the update that records the failure sets \<open>status\<close> to
  \<open>failed\<close> and \<open>errorMessage\<close>, and nothing else. The updates before it set only
  \<open>status\<close> and \<open>processProgress\<close>, so the record of the failed job has the
  \<open>metadata\<close>, \<open>sensitivityFlag\<close>, \<open>duration\<close> and \<open>processedAt\<close> it had before the
  run, and the \<open>processProgress\<close> it had before the failure.
\<close>

theorem C9_failed_update:
  assumes "snd (processVideo e v) = Throws err"
  shows "\<exists>pre u. fst (processVideo e v) = pre @ [Update u, Emit (ProcessingError err)]
     \<and> u = [SetStatus Failed, SetErrorMessage err]
     \<and> list_all (\<lambda>u'. set (map field_of u') \<subseteq> {FStatus, FProcessProgress}) (updates_of pre)
     \<and> store_after (fst (processVideo e v)) v
         = (store_after pre v)\<lparr>status := Failed, errorMessage := Some err\<rparr>
     \<and> video_metadata (store_after (fst (processVideo e v)) v) = video_metadata v
     \<and> sensitivityFlag (store_after (fst (processVideo e v)) v) = sensitivityFlag v
     \<and> duration (store_after (fst (processVideo e v)) v) = duration v
     \<and> processedAt (store_after (fst (processVideo e v)) v) = processedAt v
     \<and> processProgress (store_after (fst (processVideo e v)) v)
         = processProgress (store_after pre v)"
proof (cases e v rule: processVideo_cases)
  case (throws err')
  with assms have "err' = err" by simp
  with throws show ?thesis
    by (intro exI [of _ "[Update [SetStatus Processing, SetProcessProgress (Fin 0)],
          Emit (Progress (Fin 0) Starting), Emit (Progress (Fin 20) ExtractingMetadata)]"]
        exI [of _ "[SetStatus Failed, SetErrorMessage err]"])
      (simp add: findByIdAndUpdate_def)
next
  case hangs
  with assms show ?thesis by simp
next
  case (returns m evs r)
  with assms show ?thesis by simp
qed

theorem C9_failed_update_witness:
  "snd (processVideo env_probe_fails job0) = Throws ''ffprobe exited with code 1''
   \<and> store_after (fst (processVideo env_probe_fails job0)) job0
       = job0\<lparr>status := Failed, errorMessage := Some ''ffprobe exited with code 1''\<rparr>"
proof -
  have a: "snd (processVideo env_probe_fails job0) = Throws ''ffprobe exited with code 1''"
    by (simp add: run_env_probe_fails)
  from C9_failed_update [OF a] show ?thesis
    by (simp add: a run_env_probe_fails findByIdAndUpdate_def job0_def)
qed

text \<open>
  C10, as stated: during a run the field \<open>processProgress\<close> is written exactly twice,
  with 0 and with 100. The run of a file that \<open>ffprobe\<close> cannot read writes it once,
  with 0, and ends.
\<close>

theorem C10_counterexample:
  "concat (map progress_written (updates_of (fst (processVideo env_probe_fails job0)))) = [Fin 0]"
  by (simp add: run_env_probe_fails)

text \<open>
  C10, amended: the writes to \<open>processProgress\<close> of a run are 0 and then 100 when the
  run returns, and 0 alone when it does not. After every effect of the run the stored
  \<open>processProgress\<close> is 100 if the status is \<open>completed\<close> and 0 otherwise: no value
  in between is ever stored, and a reader of the store sees 0 until the job is completed.
\<close>

theorem C10_progress_writes:
  "concat (map progress_written (updates_of (fst (processVideo e v))))
     = (if returned (snd (processVideo e v)) then [Fin 0, Fin 100] else [Fin 0])
   \<and> list_all (\<lambda>s. processProgress s = (if status s = Completed then Fin 100 else Fin 0))
        (store_states (fst (processVideo e v)) v)"
proof (cases e v rule: processVideo_cases)
  case (throws err)
  then show ?thesis by (simp add: findByIdAndUpdate_def)
next
  case hangs
  then show ?thesis by (simp add: findByIdAndUpdate_def)
next
  case (returns m evs r)
  let ?v1 = "findByIdAndUpdate [SetStatus Processing, SetProcessProgress (Fin 0)] v"
  have "list_all (\<lambda>s. processProgress s = (if status s = Completed then Fin 100 else Fin 0))
          (store_states (map Emit evs) ?v1)"
    using store_states_emits [of evs ?v1]
    by (auto simp: list_all_iff findByIdAndUpdate_def)
  with returns show ?thesis
    by (simp add: findByIdAndUpdate_def updates_of_append updates_of_emits store_after_append
        store_after_emits store_states_append)
qed

theorem C10_progress_writes_witness:
  "returned (snd (processVideo env_no_key job0))
   \<and> concat (map progress_written (updates_of (fst (processVideo env_no_key job0))))
       = [Fin 0, Fin 100]
   \<and> \<not> returned (snd (processVideo env_probe_fails job0))
   \<and> concat (map progress_written (updates_of (fst (processVideo env_probe_fails job0))))
       = [Fin 0]"
proof -
  have a: "returned (snd (processVideo env_no_key job0))"
    by (simp add: returned_iff_resolved probe_env_no_key)
  have b: "\<not> returned (snd (processVideo env_probe_fails job0))"
    by (simp add: returned_iff_resolved probe_env_probe_fails)
  from a b C10_progress_writes [of env_no_key job0] C10_progress_writes [of env_probe_fails job0]
  show ?thesis by simp
qed

section \<open>The events of a run\<close>

lemma fl_p0: "fl (1 / 5) = 3602879701896397 / 18014398509481984"
  using fl_cert [of "1 / 5" "- 3" 7205759403792794] by simp

lemma fl_p1: "fl (54043195528445955 / 4503599627370496) = 12"
  using fl_cert [of "54043195528445955 / 4503599627370496" "3" 6755399441055744] by simp

lemma fl_p2: "fl 42 = 42"
  using fl_cert [of "42" "5" 5910974510923776] by simp

lemma fl_p3: "fl (2 / 5) = 3602879701896397 / 9007199254740992"
  using fl_cert [of "2 / 5" "- 2" 7205759403792794] by simp

lemma fl_p4: "fl (54043195528445955 / 2251799813685248) = 24"
  using fl_cert [of "54043195528445955 / 2251799813685248" "4" 6755399441055744] by simp

lemma fl_p5: "fl 54 = 54"
  using fl_cert [of "54" "5" 7599824371187712] by simp

lemma fl_p7: "fl (81064793292668925 / 2251799813685248) = 36"
  using fl_cert [of "81064793292668925 / 2251799813685248" "5" 5066549580791808] by simp

lemma fl_p8: "fl 66 = 66"
  using fl_cert [of "66" "6" 4644337115725824] by simp

lemma fl_p9: "fl (4 / 5) = 3602879701896397 / 4503599627370496"
  using fl_cert [of "4 / 5" "- 1" 7205759403792794] by simp

lemma fl_p10: "fl (54043195528445955 / 1125899906842624) = 48"
  using fl_cert [of "54043195528445955 / 1125899906842624" "5" 6755399441055744] by simp

lemma fl_p11: "fl 78 = 78"
  using fl_cert [of "78" "6" 5488762045857792] by simp

lemma fl_p13: "fl 60 = 60"
  using fl_cert [of "60" "5" 8444249301319680] by simp

lemma fl_p14: "fl 90 = 90"
  using fl_cert [of "90" "6" 6333186975989760] by simp

lemmas progress_certs = fl_p0 fl_p1 fl_p2 fl_p3 fl_p4 fl_p5 fl_p7 fl_p8 fl_p9 fl_p10 fl_p11 fl_p13 fl_p14 fl_c06 fl_one

lemma frame_events_5:
  "map (frame_event 5) [0, 1, 2, 3, 4] =
     [Progress (Fin 42) (AnalyzingFrame 1 5), Progress (Fin 54) (AnalyzingFrame 2 5),
      Progress (Fin 66) (AnalyzingFrame 3 5), Progress (Fin 78) (AnalyzingFrame 4 5),
      Progress (Fin 90) (AnalyzingFrame 5 5)]"
  by (simp add: frame_event_def rnd_def progress_certs floor_rat_numeral eval_nat_numeral)

lemma mock_interval_0:
  "mock_interval 0 =
     [Progress (Fin 10) AnalyzingContent, Progress (Fin 20) AnalyzingContent,
      Progress (Fin 30) AnalyzingContent, Progress (Fin 40) AnalyzingContent,
      Progress (Fin 50) FinalizingAnalysis, Progress (Fin 60) FinalizingAnalysis,
      Progress (Fin 70) FinalizingAnalysis, Progress (Fin 80) FinalizingAnalysis,
      Progress (Fin 90) FinalizingAnalysis, Progress (Fin 100) FinalizingAnalysis]"
  by simp

lemma frame_loop_events: "fst (frame_loop e n i fs t) = map (frame_event n) [i ..< i + length fs]"
proof (induction fs arbitrary: i t)
  case Nil
  then show ?case by simp
next
  case (Cons f fs)
  have "[i ..< i + length (f # fs)] = i # [Suc i ..< Suc i + length fs]"
    by (simp add: upt_rec)
  with Cons show ?case by (simp add: case_prod_unfold Let_def)
qed

lemma frame_loop_all_throw:
  "(\<And>i b. callHuggingFaceAPI e i b = ApiThrows) \<Longrightarrow> snd (frame_loop e n i fs t) = t"
  by (induction fs arbitrary: i t) (simp_all add: case_prod_unfold Let_def frame_tally_def)

lemma frames_env_calls_fail:
  "extractFrames env_calls_fail 5 =
     ([Progress (Fin 25) (ExtractingFrames 5)],
      Inr [\<lparr>frame_no = 1, buffer = ''jpeg''\<rparr>, \<lparr>frame_no = 2, buffer = ''jpeg''\<rparr>,
           \<lparr>frame_no = 3, buffer = ''jpeg''\<rparr>, \<lparr>frame_no = 4, buffer = ''jpeg''\<rparr>,
           \<lparr>frame_no = 5, buffer = ''jpeg''\<rparr>])"
  by (simp add: extractFrames_def env_calls_fail_def env_no_key_def List.map_filter_def upt_rec)

lemma analysis_env_no_key:
  "fst (analyzeSensitivity env_no_key) = mock_interval 0"
  by (simp add: analyzeSensitivity_def no_apiKey_def env_no_key_def analyzeSensitivityMock_def
      Let_def del: mock_interval.simps)

lemma fst_extractFrames: "fst (extractFrames e k) = [Progress (Fin 25) (ExtractingFrames k)]"
  by (simp add: extractFrames_def)

lemma analyzeSensitivity_no_key:
  "no_apiKey e \<Longrightarrow> analyzeSensitivity e = analyzeSensitivityMock e"
  by (simp add: analyzeSensitivity_def)

lemma analyzeSensitivity_no_frames:
  assumes "\<not> no_apiKey e" and "snd (extractFrames e 5) = Inl err"
  shows "analyzeSensitivity e =
     (Progress (Fin 25) (ExtractingFrames 5) # fst (analyzeSensitivityMock e),
      snd (analyzeSensitivityMock e))"
  using assms fst_extractFrames [of e 5]
  by (cases "extractFrames e 5") (simp add: analyzeSensitivity_def case_prod_unfold Let_def)

lemma analyzeSensitivity_frames:
  assumes "\<not> no_apiKey e" and "snd (extractFrames e 5) = Inr frames"
  shows "analyzeSensitivity e =
     (if apiSuccessCount (snd (frame_loop e (length frames) 0 frames empty_tally)) = 0
      then (Progress (Fin 25) (ExtractingFrames 5)
              # map (frame_event (length frames)) [0 ..< length frames]
              @ fst (analyzeSensitivityMock e),
            snd (analyzeSensitivityMock e))
      else (Progress (Fin 25) (ExtractingFrames 5)
              # map (frame_event (length frames)) [0 ..< length frames],
            final_verdict (length frames)
              (snd (frame_loop e (length frames) 0 frames empty_tally))))"
  using assms fst_extractFrames [of e 5]
    frame_loop_events [of e "length frames" 0 frames empty_tally]
  by (cases "extractFrames e 5") (simp add: analyzeSensitivity_def case_prod_unfold Let_def)

lemma fst_analyzeSensitivityMock: "fst (analyzeSensitivityMock e) = mock_interval 0"
  by (simp add: analyzeSensitivityMock_def Let_def del: mock_interval.simps)

lemma analysis_env_calls_fail:
  "fst (analyzeSensitivity env_calls_fail) =
     Progress (Fin 25) (ExtractingFrames 5) # map (frame_event 5) [0, 1, 2, 3, 4] @ mock_interval 0"
proof -
  define fr where "fr = [\<lparr>frame_no = 1, buffer = ''jpeg''\<rparr>, \<lparr>frame_no = 2, buffer = ''jpeg''\<rparr>,
           \<lparr>frame_no = 3, buffer = ''jpeg''\<rparr>, \<lparr>frame_no = 4, buffer = ''jpeg''\<rparr>,
           \<lparr>frame_no = 5, buffer = ''jpeg''\<rparr>]"
  have k: "\<not> no_apiKey env_calls_fail"
    by (simp add: no_apiKey_def env_calls_fail_def env_no_key_def)
  have c: "\<And>i b. callHuggingFaceAPI env_calls_fail i b = ApiThrows"
    by (simp add: env_calls_fail_def env_no_key_def)
  have ex: "snd (extractFrames env_calls_fail 5) = Inr fr"
    by (simp add: frames_env_calls_fail fr_def)
  have len: "length fr = 5" by (simp add: fr_def)
  have u: "[0 ..< 5] = [0, 1, 2, 3, 4::nat]" by (simp add: upt_rec)
  have z: "apiSuccessCount (snd (frame_loop env_calls_fail 5 0 fr empty_tally)) = 0"
    by (simp add: frame_loop_all_throw [of env_calls_fail, OF c] empty_tally_def)
  show ?thesis
    by (simp only: analyzeSensitivity_frames [OF k ex] len z u fst_analyzeSensitivityMock) simp
qed

lemma probe_env_calls_fail: "getVideoMetadata env_calls_fail = getVideoMetadata env_no_key"
  by (simp add: getVideoMetadata_def env_calls_fail_def env_no_key_def)


lemma progress_values_append:
  "progress_values (xs @ ys) = progress_values xs @ progress_values ys"
  by (induction xs rule: progress_values.induct) simp_all

lemma progress_of_returning:
  assumes "getVideoMetadata e = ProbeResolved m"
  shows "progress_values (events_of (fst (processVideo e v)))
        = Fin 0 # Fin 20 # progress_values (fst (analyzeSensitivity e)) @ [Fin 100]"
  using assms
  by (cases e v rule: processVideo_cases)
    (simp_all add: events_of_append events_of_emits progress_values_append)

lemma mock_interval_progress: "list_all (\<lambda>ev. \<not> is_terminal ev) (mock_interval p)"
proof (induction p rule: mock_interval.induct)
  case (1 progress)
  show ?case
  proof (cases "100 \<le> progress + 10")
    case True
    then show ?thesis by (subst mock_interval.simps) (simp add: Let_def)
  next
    case False
    with 1 [OF refl refl False] show ?thesis
      by (subst mock_interval.simps) (simp add: Let_def)
  qed
qed

lemma frame_events_progress: "list_all (\<lambda>ev. \<not> is_terminal ev) (map (frame_event n) js)"
  by (induction js) (simp_all add: frame_event_def Let_def)

lemma analysis_events_progress:
  "list_all (\<lambda>ev. \<not> is_terminal ev) (fst (analyzeSensitivity e))"
proof (cases "no_apiKey e")
  case True
  then show ?thesis
    by (simp add: analyzeSensitivity_no_key fst_analyzeSensitivityMock mock_interval_progress
        del: mock_interval.simps)
next
  case False
  show ?thesis
  proof (cases "snd (extractFrames e 5)")
    case (Inl err)
    with False show ?thesis
      by (simp add: analyzeSensitivity_no_frames fst_analyzeSensitivityMock mock_interval_progress
          del: mock_interval.simps)
  next
    case (Inr frames)
    with False show ?thesis
      by (simp add: analyzeSensitivity_frames fst_analyzeSensitivityMock mock_interval_progress
          frame_events_progress del: mock_interval.simps)
  qed
qed

lemma filter_terminal_progress:
  "list_all (\<lambda>ev. \<not> is_terminal ev) evs \<Longrightarrow> filter is_terminal evs = []"
  by (induction evs) simp_all

lemma terminal_events_of_run:
  "length (filter is_terminal (events_of (fst (processVideo e v))))
     = (case snd (processVideo e v) of Returns v' \<Rightarrow> 1 | Throws err \<Rightarrow> 1 | NeverSettles \<Rightarrow> 0)"
proof (cases e v rule: processVideo_cases)
  case (throws err)
  then show ?thesis by simp
next
  case hangs
  then show ?thesis by simp
next
  case (returns m evs r)
  from analysis_events_progress [of e] returns(2) have "filter is_terminal evs = []"
    by (simp add: filter_terminal_progress)
  with returns show ?thesis by (simp add: events_of_append events_of_emits)
qed

text \<open>
  C2: the progress events of one run never decrease, on every path, and the run ends
  with one terminal event, a completion or a failure. A run that returns emits one
  completion event and a run that throws one failure event (\<open>terminal_events_of_run\<close>).
  The code does not keep the first part on the paths through the mock classifier, whose
  counter starts again from 0. Without an API key the values are 0, 20 and then 10, 20
  and so on to 100; with a key, five frames and a classifier whose calls all fail, they
  rise to 90 in the frame loop and then start again at 10.
\<close>

theorem C2_progress_restarts:
  "progress_values (events_of (fst (processVideo env_no_key job0)))
     = map Fin [0, 20, 10, 20, 30, 40, 50, 60, 70, 80, 90, 100, 100]
   \<and> \<not> nondecreasing (progress_values (events_of (fst (processVideo env_no_key job0))))
   \<and> progress_values (events_of (fst (processVideo env_calls_fail job0)))
     = map Fin [0, 20, 25, 42, 54, 66, 78, 90, 10, 20, 30, 40, 50, 60, 70, 80, 90, 100, 100]
   \<and> \<not> nondecreasing (progress_values (events_of (fst (processVideo env_calls_fail job0))))"
proof -
  have a: "progress_values (events_of (fst (processVideo env_no_key job0)))
     = map Fin [0, 20, 10, 20, 30, 40, 50, 60, 70, 80, 90, 100, 100]"
    by (simp add: progress_of_returning [OF probe_env_no_key] analysis_env_no_key mock_interval_0
        del: mock_interval.simps)
  have b: "progress_values (events_of (fst (processVideo env_calls_fail job0)))
     = map Fin [0, 20, 25, 42, 54, 66, 78, 90, 10, 20, 30, 40, 50, 60, 70, 80, 90, 100, 100]"
    using probe_env_no_key frame_events_5
    by (simp add: progress_of_returning [of env_calls_fail] probe_env_calls_fail
        analysis_env_calls_fail mock_interval_0 del: mock_interval.simps)
  show ?thesis unfolding a b by (simp add: jle_def)
qed

section \<open>Labels and scores of one frame\<close>

lemma rnd_c09: "rnd (9 / 10) = Fin (8106479329266893 / 9007199254740992)"
  using fl_cert [of "9 / 10" "- 1" 8106479329266893] by (simp add: rnd_def)

lemma rnd_c09_half: "rnd (8106479329266893 / 18014398509481984) = Fin (8106479329266893 / 18014398509481984)"
  using fl_cert [of "8106479329266893 / 18014398509481984" "- 2" 8106479329266893] by (simp add: rnd_def)

lemma rnd_n30000: "rnd 30000 = Fin 30000"
  using fl_cert [of "30000" "14" 8246337208320000] by (simp add: rnd_def)

lemma rnd_n1001: "rnd 1001 = Fin 1001"
  using fl_cert [of "1001" "9" 8804889115230208] by (simp add: rnd_def)

lemma rnd_rate: "rnd (30000 / 1001) = Fin (1054476685978981 / 35184372088832)"
  using fl_cert [of "30000 / 1001" "4" 8435813487831848] by (simp add: rnd_def)

lemmas keyword_defs = includes_any_def toLowerCase_def lower_char_def unsafe_keywords_def
  safe_keywords_def ambiguous_keywords_def

text \<open>
  C7: on a flat mapping from labels to scores the normalisation uses the vocabularies of
  the list case. The code's loop over a mapping looks for \<open>nsfw\<close>, \<open>unsafe\<close> and
  \<open>sexual\<close>, and for \<open>safe\<close> and \<open>normal\<close>, and for nothing else. A score of 0.9
  under \<open>porn\<close>, \<open>adult\<close>, \<open>explicit\<close>, \<open>nude\<close> or \<open>erotic\<close> leaves \<open>nsfwScore\<close>
  at 0 in a mapping and makes it 0.9 in a list; under \<open>bikini\<close>, \<open>underwear\<close> or
  \<open>swimsuit\<close> it leaves it at 0 where the list gives half the score; under \<open>sfw\<close>,
  \<open>neutral\<close>, \<open>clean\<close> or \<open>appropriate\<close> it is ignored, \<open>normalScore\<close> taking the
  default 0.95, where the list gives 0.9.
\<close>

theorem C7_mapping_vocabulary:
  "list_all
     (\<lambda>k. map_option fst (frame_scores (ResultObject [(k, Some (9 / 10))])) = Some (Fin 0)
        \<and> map_option fst (frame_scores (ResultArray [Entry (Some k) (rnd (9 / 10))]))
            = Some (rnd (9 / 10)))
     [''porn'', ''adult'', ''explicit'', ''nude'', ''erotic'']
   \<and> list_all
     (\<lambda>k. map_option fst (frame_scores (ResultObject [(k, Some (9 / 10))])) = Some (Fin 0)
        \<and> map_option fst (frame_scores (ResultArray [Entry (Some k) (rnd (9 / 10))]))
            = Some (jmul (rnd (9 / 10)) (rnd (1 / 2))))
     [''bikini'', ''underwear'', ''swimsuit'']
   \<and> list_all
     (\<lambda>k. map_option snd (frame_scores (ResultObject [(k, Some (9 / 10))]))
            = Some (rnd (95 / 100))
        \<and> map_option snd (frame_scores (ResultArray [Entry (Some k) (rnd (9 / 10))]))
            = Some (rnd (9 / 10)))
     [''sfw'', ''neutral'', ''clean'', ''appropriate'']"
  by (simp add: frame_scores_def keyword_defs jeq_def Math_max_def rnd_c09 rnd_half rnd_c095
      rnd_c09_half)

section \<open>The frame rate\<close>

lemma slash_no_digit: "\<not> is_digit CHR ''/''"
  by (simp add: is_digit_def)

lemma decimal_literal_digits: "decimal_literal s = Some n \<Longrightarrow> list_all is_digit s"
  by (simp add: decimal_literal_def split: if_splits)

lemma takeWhile_digits:
  "list_all is_digit sa \<Longrightarrow> takeWhile (\<lambda>c. c \<noteq> CHR ''/'') (sa @ CHR ''/'' # sb) = sa"
  using slash_no_digit by (induction sa) auto

lemma dropWhile_digits:
  "list_all is_digit sa \<Longrightarrow> dropWhile (\<lambda>c. c \<noteq> CHR ''/'') (sa @ CHR ''/'' # sb) = CHR ''/'' # sb"
  using slash_no_digit by (induction sa) auto

lemma js_eval_quotient:
  assumes "decimal_literal sa = Some a" and "decimal_literal sb = Some b"
  shows "js_eval h (sa @ ''/'' @ sb) = EvalNumber (jdiv (rnd (of_nat a)) (rnd (of_nat b)))"
proof -
  have d: "list_all is_digit sa" using assms(1) by (rule decimal_literal_digits)
  have "\<not> list_all is_digit (sa @ ''/'' @ sb)" using slash_no_digit by simp
  then have n: "decimal_literal (sa @ ''/'' @ sb) = None" by (simp add: decimal_literal_def)
  show ?thesis
    using n assms takeWhile_digits [OF d, of sb] dropWhile_digits [OF d, of sb]
    by (simp add: js_eval_def)
qed

lemma js_eval_zero: "js_eval h ''0'' = EvalNumber (Fin 0)"
  by (simp add: js_eval_def decimal_literal_def is_digit_def rnd_zero)

lemma frame_rate_text_default:
  "Option.bind vs r_frame_rate = None \<or> Option.bind vs r_frame_rate = Some []
     \<Longrightarrow> frame_rate_text vs = ''0''"
  by (auto simp: frame_rate_text_def)

lemma frame_rate_text_given:
  "Option.bind vs r_frame_rate = Some r \<Longrightarrow> r \<noteq> [] \<Longrightarrow> frame_rate_text vs = r"
  by (simp add: frame_rate_text_def)

lemma rate_30000_1001:
  "jdiv (rnd 30000) (rnd 1001) = rnd (30000 / 1001)"
  "rnd (30000 / 1001) = Fin (1054476685978981 / 35184372088832)"
  by (simp_all add: rnd_n30000 rnd_n1001 rnd_rate)

lemma literals_30000_1001:
  "decimal_literal ''30000'' = Some 30000" "decimal_literal ''1001'' = Some 1001"
  "decimal_literal ''0'' = Some 0"
  by (simp_all add: decimal_literal_def is_digit_def)

text \<open>
  C4, as stated: for every absent or malformed \<open>r_frame_rate\<close> the \<open>fps\<close> of the metadata
  is 0. For a stream whose rate \<open>ffprobe\<close> reports as \<open>0/0\<close> the probe resolves and
  \<open>fps\<close> is \<open>NaN\<close>, which is not 0.
\<close>

theorem C4_counterexample:
  "getVideoMetadata env_zero_rate =
     ProbeResolved
       \<lparr>meta_duration = Some 10, meta_width = Some 640, meta_height = Some 480,
        fps = NaN, bitrate = Some 800000, codec = Some ''mjpeg''\<rparr>
   \<and> \<not> jeq NaN (Fin 0)"
  using js_eval_quotient [of "''0''" 0 "''0''" 0 "host_eval env_no_key"]
  by (simp add: getVideoMetadata_def env_zero_rate_def probe_zero_rate_def frame_rate_text_def
      literals_30000_1001 rnd_zero jeq_def)

text \<open>
  C4, amended: when \<open>ffprobe\<close> answers, the frame rate is the value of the text
  \<open>videoStream?.r_frame_rate || '0'\<close>. If there is no video stream, or its
  \<open>r_frame_rate\<close> is absent or empty, the probe resolves with \<open>fps\<close> 0. If it is the
  quotient of two decimal integer literals, the probe resolves with the quotient of the
  two numbers as the language divides them; for \<open>30000/1001\<close> that is the binary64
  number nearest to 30000 / 1001, within a thousandth of 29.97. Nothing turns another
  text into 0.
\<close>

theorem C4_frame_rate:
  assumes "ffprobe e = Inr d"
    and "vs = find (\<lambda>s. codec_type s = ''video'') (streams d)"
  shows "(Option.bind vs r_frame_rate = None \<or> Option.bind vs r_frame_rate = Some [] \<longrightarrow>
            (\<exists>m. getVideoMetadata e = ProbeResolved m \<and> fps m = Fin 0))
    \<and> (\<forall>sa sb a b. Option.bind vs r_frame_rate = Some (sa @ ''/'' @ sb)
            \<and> decimal_literal sa = Some a \<and> decimal_literal sb = Some b \<longrightarrow>
            (\<exists>m. getVideoMetadata e = ProbeResolved m
               \<and> fps m = jdiv (rnd (of_nat a)) (rnd (of_nat b))))
    \<and> (Option.bind vs r_frame_rate = Some ''30000/1001'' \<longrightarrow>
            (\<exists>m q. getVideoMetadata e = ProbeResolved m \<and> fps m = rnd (30000 / 1001)
               \<and> fps m = Fin q \<and> \<bar>q - 2997 / 100\<bar> < 1 / 1000))"
proof (intro conjI impI allI)
  assume "Option.bind vs r_frame_rate = None \<or> Option.bind vs r_frame_rate = Some []"
  then have "frame_rate_text vs = ''0''" by (rule frame_rate_text_default)
  with assms show "\<exists>m. getVideoMetadata e = ProbeResolved m \<and> fps m = Fin 0"
    by (simp add: getVideoMetadata_def js_eval_zero Let_def)
next
  fix sa sb a b
  assume h: "Option.bind vs r_frame_rate = Some (sa @ ''/'' @ sb)
            \<and> decimal_literal sa = Some a \<and> decimal_literal sb = Some b"
  then have "frame_rate_text vs = sa @ ''/'' @ sb" by (intro frame_rate_text_given) auto
  moreover from h have "js_eval (host_eval e) (sa @ ''/'' @ sb)
      = EvalNumber (jdiv (rnd (of_nat a)) (rnd (of_nat b)))"
    by (intro js_eval_quotient) auto
  ultimately show "\<exists>m. getVideoMetadata e = ProbeResolved m
               \<and> fps m = jdiv (rnd (of_nat a)) (rnd (of_nat b))"
    using assms by (simp add: getVideoMetadata_def Let_def)
next
  assume h: "Option.bind vs r_frame_rate = Some ''30000/1001''"
  then have "frame_rate_text vs = ''30000/1001''" by (intro frame_rate_text_given) auto
  moreover have "js_eval (host_eval e) ''30000/1001''
      = EvalNumber (jdiv (rnd 30000) (rnd 1001))"
    using js_eval_quotient [of "''30000''" 30000 "''1001''" 1001 "host_eval e"]
    by (simp add: literals_30000_1001)
  ultimately have "getVideoMetadata e =
      ProbeResolved \<lparr>meta_duration = format_duration d, meta_width = Option.bind vs width,
         meta_height = Option.bind vs height, fps = rnd (30000 / 1001),
         bitrate = format_bit_rate d, codec = Option.bind vs codec_name\<rparr>"
    using assms by (simp add: getVideoMetadata_def rate_30000_1001(1) Let_def)
  then show "\<exists>m q. getVideoMetadata e = ProbeResolved m \<and> fps m = rnd (30000 / 1001)
               \<and> fps m = Fin q \<and> \<bar>q - 2997 / 100\<bar> < 1 / 1000"
    by (auto simp: rate_30000_1001(2) intro!: exI [of _ "1054476685978981 / 35184372088832"])
qed

theorem C4_frame_rate_witness:
  "ffprobe env_no_rate = Inr probe_no_rate
   \<and> Option.bind (find (\<lambda>s. codec_type s = ''video'') (streams probe_no_rate)) r_frame_rate
       = None
   \<and> (\<exists>m. getVideoMetadata env_no_rate = ProbeResolved m \<and> fps m = Fin 0)
   \<and> ffprobe env_no_key = Inr probe_ok
   \<and> Option.bind (find (\<lambda>s. codec_type s = ''video'') (streams probe_ok)) r_frame_rate
       = Some ''30000/1001''
   \<and> (\<exists>m. getVideoMetadata env_no_key = ProbeResolved m \<and> fps m = rnd (30000 / 1001))"
proof -
  have a: "ffprobe env_no_rate = Inr probe_no_rate" "ffprobe env_no_key = Inr probe_ok"
    by (simp_all add: env_no_rate_def env_no_key_def)
  have b: "Option.bind (find (\<lambda>s. codec_type s = ''video'') (streams probe_no_rate)) r_frame_rate
      = None"
    by (simp add: probe_no_rate_def)
  have c: "Option.bind (find (\<lambda>s. codec_type s = ''video'') (streams probe_ok)) r_frame_rate
      = Some ''30000/1001''"
    by (simp add: probe_ok_def)
  from C4_frame_rate [OF a(1) refl] b C4_frame_rate [OF a(2) refl] c a show ?thesis by blast
qed

section \<open>The confidence of a verdict\<close>

lemma fl_c03_again: "fl (5404319552844595 / 18014398509481984) = 5404319552844595 / 18014398509481984"
  using fl_cert [of "5404319552844595 / 18014398509481984" "- 2" 5404319552844595] by simp

lemma fl_c07_again: "fl (3152519739159347 / 4503599627370496) = 3152519739159347 / 4503599627370496"
  using fl_cert [of "3152519739159347 / 4503599627370496" "- 1" 6305039478318694] by simp

lemma fl_c03_plus_c07: "fl (18014398509481983 / 18014398509481984) = 1"
  using fl_cert_tie [of "18014398509481983 / 18014398509481984" "- 1" 9007199254740992] by simp

lemma analyzeSensitivity_real:
  assumes "real_path e"
  shows "snd (analyzeSensitivity e)
    = final_verdict (length (projr (snd (extractFrames e 5)))) (loop_tally e)"
proof (cases "snd (extractFrames e 5)")
  case (Inl err)
  with assms show ?thesis by (simp add: real_path_def loop_tally_def empty_tally_def)
next
  case (Inr frames)
  with assms show ?thesis
    by (simp add: real_path_def loop_tally_def analyzeSensitivity_frames)
qed

lemma analyzeSensitivity_mock:
  assumes "\<not> real_path e"
  shows "snd (analyzeSensitivity e) = snd (analyzeSensitivityMock e)"
proof (cases "no_apiKey e")
  case True
  then show ?thesis by (simp add: analyzeSensitivity_no_key)
next
  case False
  show ?thesis
  proof (cases "snd (extractFrames e 5)")
    case (Inl err)
    with False show ?thesis by (simp add: analyzeSensitivity_no_frames)
  next
    case (Inr frames)
    with False assms show ?thesis
      by (simp add: real_path_def loop_tally_def analyzeSensitivity_frames)
  qed
qed

lemma loop_tally_nonneg: "numeric_scores e \<Longrightarrow> nonneg (totalNsfwScore (loop_tally e))"
  by (simp add: numeric_scores_def loop_outcomes_def outcomes_def loop_tally_def empty_tally_def
      frame_loop_nonneg split: sum.splits)

lemma jmul_nonneg_pos: "nonneg x \<Longrightarrow> 0 < c \<Longrightarrow> nonneg (jmul x (Fin c))"
  by (cases x) (simp_all add: rnd_nonneg signed_inf_def)

lemma final_verdict_confidence:
  assumes "nonneg (totalNsfwScore t)" and "0 < apiSuccessCount t"
  shows "\<exists>c. confidence (final_verdict n t) = Fin c \<and> 0 \<le> c \<and> c \<le> fl (99 / 100)"
proof -
  define avg where "avg = jdiv (totalNsfwScore t) (Fin (of_nat (apiSuccessCount t)))"
  define x where "x = (if flaggedFrames t = 0 \<and> jlt avg (rnd (1 / 2))
     then jmul (jsub (Fin 1) avg) (rnd (11 / 10)) else jmul avg (rnd (11 / 10)))"
  have avg: "nonneg avg" unfolding avg_def using assms by (rule jdiv_count_nonneg)
  have x: "nonneg x"
  proof (cases "flaggedFrames t = 0 \<and> jlt avg (rnd (1 / 2))")
    case True
    then have "jlt avg (Fin (1 / 2))" by (simp add: rnd_half)
    with avg obtain a where a: "avg = Fin a" "0 \<le> a" "a < 1 / 2" by (cases avg) auto
    then have "nonneg (jsub (Fin 1) avg)" by (simp add: jsub_def rnd_nonneg)
    then have "nonneg (jmul (jsub (Fin 1) avg) (rnd (11 / 10)))"
      unfolding rnd_c11 by (rule jmul_nonneg_pos) simp
    with True show ?thesis by (simp add: x_def)
  next
    case False
    have "nonneg (jmul avg (rnd (11 / 10)))"
      unfolding rnd_c11 using avg by (rule jmul_nonneg_pos) simp
    with False show ?thesis by (auto simp: x_def)
  qed
  have c: "confidence (final_verdict n t) = toFixed_parseFloat 3 (Math_min x (rnd (99 / 100)))"
    by (simp add: final_verdict_def Let_def avg_def x_def)
  have r: "rnd (99 / 100) = Fin (fl (99 / 100))" by (simp add: rnd_c099 fl_c099)
  have "0 \<le> fl (99 / 100)" by (simp add: fl_c099)
  with x obtain m where m: "Math_min x (Fin (fl (99 / 100))) = Fin m" "0 \<le> m" "m \<le> fl (99 / 100)"
    using Math_min_bounded by blast
  from toFixed3_bounded [OF m(2,3)] obtain c' where
    "toFixed_parseFloat 3 (Fin m) = Fin c'" "0 \<le> c'" "c' \<le> fl (99 / 100)" .
  with c r m(1) show ?thesis by simp
qed

lemma mock_confidence:
  assumes "0 \<le> Math_random e 1" and "Math_random e 1 < 1"
  shows "\<exists>c. confidence (snd (analyzeSensitivityMock e)) = Fin c \<and> fl (7 / 10) \<le> c \<and> c \<le> 1"
proof -
  define r where "r = Math_random e 1"
  define c03 where "c03 = fl (3 / 10)"
  define c07 where "c07 = fl (7 / 10)"
  have pos: "0 < c03" "0 < c07" by (simp_all add: c03_def c07_def fl_c03 fl_c07)
  have id: "fl c03 = c03" "fl c07 = c07" "fl (c03 + c07) = 1"
    by (simp_all add: c03_def c07_def fl_c03 fl_c07 fl_c03_again fl_c07_again fl_c03_plus_c07)
  have big: "fl c03 < 2 ^ 1024" "fl (c03 + c07) < 2 ^ 1024"
    by (simp_all add: c03_def c07_def fl_c03 fl_c07 fl_c03_again fl_c03_plus_c07)
  have lit: "rnd (3 / 10) = Fin c03" "rnd (7 / 10) = Fin c07"
    by (simp_all add: c03_def c07_def rnd_c03 rnd_c07 fl_c03 fl_c07)
  define p where "p = fl (r * c03)"
  have r0: "0 \<le> r * c03" using assms(1) pos by (simp add: r_def)
  have r1: "r * c03 \<le> c03" using assms(2) pos by (simp add: r_def)
  have p0: "0 \<le> p" unfolding p_def using r0 by (rule fl_nonneg)
  have "p \<le> fl c03" unfolding p_def using r0 r1 by (rule fl_mono)
  then have p1: "p \<le> c03" by (simp add: id)
  have m: "rnd (r * c03) = Fin p" unfolding p_def using r0 r1 big(1) by (rule rnd_Fin)
  have s0: "0 \<le> p + c07" using p0 pos by simp
  have s1: "p + c07 \<le> c03 + c07" using p1 by simp
  have a: "rnd (p + c07) = Fin (fl (p + c07))" using s0 s1 big(2) by (rule rnd_Fin)
  have "fl c07 \<le> fl (p + c07)" using p0 pos by (intro fl_mono) auto
  then have lo: "c07 \<le> fl (p + c07)" by (simp add: id)
  have "fl (p + c07) \<le> fl (c03 + c07)" using s0 s1 by (rule fl_mono)
  then have hi: "fl (p + c07) \<le> 1" by (simp add: id)
  have rr: "Math_random e (Suc 0) = r" by (simp add: r_def)
  have "confidence (snd (analyzeSensitivityMock e)) = Fin (fl (p + c07))"
    by (simp add: analyzeSensitivityMock_def Let_def lit rr m a del: mock_interval.simps)
  with lo hi show ?thesis by (simp add: c07_def)
qed

section \<open>Which path a run takes\<close>

lemma count_tally_frame: "apiSuccessCount (tally_frame i r t) = Suc (apiSuccessCount t)"
  by (simp add: tally_frame_def Let_def case_prod_unfold split: option.splits)

lemma count_frame_loop:
  "apiSuccessCount (snd (frame_loop e n i fs t))
     = apiSuccessCount t
       + length (filter (\<lambda>a. a \<noteq> ApiThrows)
           (map (\<lambda>(j, f). callHuggingFaceAPI e j (buffer f)) (enumerate i fs)))"
proof (induction fs arbitrary: i t)
  case Nil
  then show ?case by simp
next
  case (Cons f fs)
  show ?case
    by (cases "callHuggingFaceAPI e i (buffer f)")
      (simp_all add: case_prod_unfold Let_def Cons frame_tally_def count_tally_frame)
qed

lemma real_path_iff:
  "real_path e \<longleftrightarrow>
     \<not> no_apiKey e
     \<and> (\<exists>frames. snd (extractFrames e 5) = Inr frames
          \<and> \<not> list_all (\<lambda>a. a = ApiThrows) (outcomes e frames))"
proof (cases "snd (extractFrames e 5)")
  case (Inl err)
  then show ?thesis by (simp add: real_path_def loop_tally_def empty_tally_def)
next
  case (Inr frames)
  have "(0 < length (filter (\<lambda>a. a \<noteq> ApiThrows) (outcomes e frames)))
      = (\<not> list_all (\<lambda>a. a = ApiThrows) (outcomes e frames))"
    by (simp add: list_all_iff filter_empty_conv)
  with Inr show ?thesis
    by (simp add: real_path_def loop_tally_def count_frame_loop empty_tally_def outcomes_def)
qed

lemma frames_env_third_frame:
  "snd (extractFrames (env_third_frame s) 5) = snd (extractFrames env_calls_fail 5)"
  by (simp add: extractFrames_def env_third_frame_def)

lemma outcomes_env_third_frame:
  "outcomes (env_third_frame s) (projr (snd (extractFrames env_calls_fail 5)))
     = replicate 2 ApiThrows
       @ ApiReturns (ResultArray [Entry (Some ''nsfw'') (rnd s),
                                   Entry (Some ''normal'') (rnd (1 - s))])
       # replicate 2 ApiThrows"
proof -
  have "projr (snd (extractFrames env_calls_fail 5))
      = [\<lparr>frame_no = 1, buffer = ''jpeg''\<rparr>, \<lparr>frame_no = 2, buffer = ''jpeg''\<rparr>,
         \<lparr>frame_no = 3, buffer = ''jpeg''\<rparr>, \<lparr>frame_no = 4, buffer = ''jpeg''\<rparr>,
         \<lparr>frame_no = 5, buffer = ''jpeg''\<rparr>]"
    by (simp add: frames_env_calls_fail)
  then show ?thesis
    by (simp add: outcomes_def env_third_frame_def eval_nat_numeral)
qed

lemma real_path_env_third_frame: "real_path (env_third_frame s)"
proof -
  have "\<not> no_apiKey (env_third_frame s)"
    by (simp add: no_apiKey_def env_third_frame_def env_calls_fail_def env_no_key_def)
  moreover have "snd (extractFrames (env_third_frame s) 5)
      = Inr (projr (snd (extractFrames env_calls_fail 5)))"
    by (simp add: frames_env_third_frame frames_env_calls_fail)
  moreover have "\<not> list_all (\<lambda>a. a = ApiThrows)
      (outcomes (env_third_frame s) (projr (snd (extractFrames env_calls_fail 5))))"
    by (simp only: outcomes_env_third_frame) simp
  ultimately show ?thesis unfolding real_path_iff by blast
qed

lemma loop_outcomes_env_third_frame:
  "loop_outcomes (env_third_frame s)
     = replicate 2 ApiThrows
       @ ApiReturns (ResultArray [Entry (Some ''nsfw'') (rnd s),
                                   Entry (Some ''normal'') (rnd (1 - s))])
       # replicate 2 ApiThrows"
  using outcomes_env_third_frame [of s]
  by (simp add: loop_outcomes_def frames_env_third_frame frames_env_calls_fail)

lemma numeric_scores_env_third_frame: "numeric_scores (env_third_frame s)"
  by (simp add: numeric_scores_def loop_outcomes_env_third_frame rnd_not_NaN list_all_iff)

lemma numeric_scores_no_frames:
  "snd (extractFrames e 5) = Inl err \<Longrightarrow> numeric_scores e"
  by (simp add: numeric_scores_def loop_outcomes_def)

lemma not_real_path_env_no_key: "\<not> real_path env_no_key" "\<not> real_path env_mock_high"
  by (simp_all add: real_path_def no_apiKey_def env_no_key_def env_mock_high_def)

section \<open>The bounds of the confidence\<close>

lemma rnd_hi_mul: "rnd (686348583211263565 / 2305843009213693952) = Fin (5362098306337997 / 18014398509481984)"
  using fl_cert [of "686348583211263565 / 2305843009213693952" "- 2" 5362098306337997] by (simp add: rnd_def)

lemma rnd_hi_add: "rnd (17972177262975385 / 18014398509481984) = Fin (2246522157871923 / 2251799813685248)"
  using fl_cert_tie [of "17972177262975385 / 18014398509481984" "- 1" 8986088631487692] by (simp add: rnd_def)

text \<open>
  C1, as stated: the confidence of every verdict, of the classification path or of the
  mock classifier, is between 0 and 0.99. The mock classifier computes
  \<open>Math.random() * 0.3 + 0.7\<close>; with the random number 127/128 the verdict of a run
  without an API key has a confidence above 0.99.
\<close>

theorem C1_counterexample:
  "confidence (snd (analyzeSensitivity env_mock_high))
     = Fin (2246522157871923 / 2251799813685248)
   \<and> \<not> jle (confidence (snd (analyzeSensitivity env_mock_high))) (rnd (99 / 100))"
proof -
  have r: "Math_random env_mock_high (Suc 0) = 127 / 128"
    by (simp add: env_mock_high_def)
  have "confidence (snd (analyzeSensitivity env_mock_high))
      = Fin (2246522157871923 / 2251799813685248)"
    by (simp add: analyzeSensitivity_mock [OF not_real_path_env_no_key(2)]
        analyzeSensitivityMock_def Let_def r rnd_c03 rnd_c07 rnd_hi_mul rnd_hi_add
        del: mock_interval.simps)
  then show ?thesis by (simp add: jle_def rnd_c099)
qed

text \<open>
  C1, amended: the confidence of a verdict of the classification path is a number from 0
  to 0.99 when every score of the list answers is a number; the confidence of a verdict
  of the mock classifier is a number from 0.7 to 1, whatever number in \<open>[0, 1)\<close>
  \<open>Math.random()\<close> gives. The bounds are the binary64 values of the literals, compared
  as the language compares. A score may be negative or infinite; a score that is not a
  number (lines 210, 215 and 219 use \<open>item.score\<close> as it comes) is left out.
\<close>

theorem C1_confidence_bounds:
  "(real_path e \<and> numeric_scores e \<longrightarrow>
      jle (Fin 0) (confidence (snd (analyzeSensitivity e)))
      \<and> jle (confidence (snd (analyzeSensitivity e))) (rnd (99 / 100)))
   \<and> (\<not> real_path e \<and> 0 \<le> Math_random e 1 \<and> Math_random e 1 < 1 \<longrightarrow>
      jle (rnd (7 / 10)) (confidence (snd (analyzeSensitivity e)))
      \<and> jle (confidence (snd (analyzeSensitivity e))) (Fin 1))"
proof (intro conjI impI)
  assume h: "real_path e \<and> numeric_scores e"
  then have r: "real_path e" and n: "numeric_scores e" by simp_all
  from r have "0 < apiSuccessCount (loop_tally e)" by (simp add: real_path_def)
  from final_verdict_confidence [OF loop_tally_nonneg [OF n] this]
  obtain c where "confidence (snd (analyzeSensitivity e)) = Fin c" "0 \<le> c" "c \<le> fl (99 / 100)"
    unfolding analyzeSensitivity_real [OF r] by blast
  then show "jle (Fin 0) (confidence (snd (analyzeSensitivity e)))"
    and "jle (confidence (snd (analyzeSensitivity e))) (rnd (99 / 100))"
    by (simp_all add: jle_def rnd_c099 fl_c099)
next
  assume h: "\<not> real_path e \<and> 0 \<le> Math_random e 1 \<and> Math_random e 1 < 1"
  then obtain c where "confidence (snd (analyzeSensitivityMock e)) = Fin c" "fl (7 / 10) \<le> c" "c \<le> 1"
    using mock_confidence [of e] by blast
  with h show "jle (rnd (7 / 10)) (confidence (snd (analyzeSensitivity e)))"
    and "jle (confidence (snd (analyzeSensitivity e))) (Fin 1)"
    by (simp_all add: analyzeSensitivity_mock jle_def rnd_c07 fl_c07)
qed

theorem C1_confidence_bounds_witness:
  "real_path (env_third_frame (8 / 10)) \<and> numeric_scores (env_third_frame (8 / 10))
   \<and> jle (Fin 0) (confidence (snd (analyzeSensitivity (env_third_frame (8 / 10)))))
   \<and> jle (confidence (snd (analyzeSensitivity (env_third_frame (8 / 10))))) (rnd (99 / 100))
   \<and> \<not> real_path env_no_key \<and> (0::rat) \<le> 1 / 2 \<and> (1::rat) / 2 < 1
   \<and> jle (rnd (7 / 10)) (confidence (snd (analyzeSensitivity env_no_key)))
   \<and> jle (confidence (snd (analyzeSensitivity env_no_key))) (Fin 1)"
proof -
  have m: "Math_random env_no_key 1 = 1 / 2" by (simp add: env_no_key_def)
  from C1_confidence_bounds [of "env_third_frame (8 / 10)"] C1_confidence_bounds [of env_no_key]
    real_path_env_third_frame [of "8 / 10"] numeric_scores_env_third_frame [of "8 / 10"]
    not_real_path_env_no_key(1) m
  show ?thesis by simp
qed

section \<open>The fallback to the mock classifier\<close>

lemma mock_flag:
  "verdict_flag (snd (analyzeSensitivityMock e)) = Safe
   \<or> verdict_flag (snd (analyzeSensitivityMock e)) = Flagged"
  by (simp add: analyzeSensitivityMock_def Let_def del: mock_interval.simps)

lemma last_event_of_returning:
  assumes "getVideoMetadata e = ProbeResolved m"
  shows "last (events_of (fst (processVideo e v)))
    = Complete (verdict_flag (snd (analyzeSensitivity e))) (confidence (snd (analyzeSensitivity e)))
        (detectedIssues (snd (analyzeSensitivity e))) (verdict_details (snd (analyzeSensitivity e)))
        (meta_duration m) (meta_width m, meta_height m) (codec m)"
  using assms
  by (cases e v rule: processVideo_cases) (simp_all add: events_of_append events_of_emits)

lemma store_of_returning:
  assumes "getVideoMetadata e = ProbeResolved m"
  shows "\<exists>v'. snd (processVideo e v) = Returns v'
      \<and> store_after (fst (processVideo e v)) v = v'
      \<and> status v' = Completed \<and> processProgress v' = Fin 100
      \<and> sensitivityFlag v' = verdict_flag (snd (analyzeSensitivity e))"
  using assms
  by (cases e v rule: processVideo_cases)
    (simp_all add: store_after_append store_after_emits findByIdAndUpdate_def)

text \<open>
  When the process has no API key, or the extraction of the frames fails, or no call of
  the classifier returns, the verdict is the mock classifier's, and the job whose
  metadata probe succeeded ends \<open>completed\<close> in the store, with progress 100, a flag that
  is \<open>safe\<close> or \<open>flagged\<close>, and a confidence from 0.7 to 1 in the completion event that
  ends the trace. The random number of the confidence is any number in \<open>[0, 1)\<close>.
\<close>

lemma mock_fallback_completes:
  assumes "getVideoMetadata e = ProbeResolved m"
    and "no_apiKey e
         \<or> (\<exists>err. snd (extractFrames e 5) = Inl err)
         \<or> (\<exists>frames. snd (extractFrames e 5) = Inr frames
               \<and> list_all (\<lambda>a. a = ApiThrows) (outcomes e frames))"
    and "0 \<le> Math_random e 1" and "Math_random e 1 < 1"
  shows "snd (analyzeSensitivity e) = snd (analyzeSensitivityMock e)
    \<and> (\<exists>v'. snd (processVideo e v) = Returns v'
          \<and> store_after (fst (processVideo e v)) v = v'
          \<and> status v' = Completed \<and> processProgress v' = Fin 100
          \<and> (sensitivityFlag v' = Safe \<or> sensitivityFlag v' = Flagged))
    \<and> (\<exists>f c i d. last (events_of (fst (processVideo e v)))
            = Complete f c i d (meta_duration m) (meta_width m, meta_height m) (codec m)
          \<and> c = confidence (snd (analyzeSensitivityMock e))
          \<and> jle (rnd (7 / 10)) c \<and> jle c (Fin 1))"
proof -
  from assms(2) have n: "\<not> real_path e" unfolding real_path_iff by auto
  then have a: "snd (analyzeSensitivity e) = snd (analyzeSensitivityMock e)"
    by (rule analyzeSensitivity_mock)
  from store_of_returning [OF assms(1), of v] mock_flag [of e]
  have b: "\<exists>v'. snd (processVideo e v) = Returns v'
          \<and> store_after (fst (processVideo e v)) v = v'
          \<and> status v' = Completed \<and> processProgress v' = Fin 100
          \<and> (sensitivityFlag v' = Safe \<or> sensitivityFlag v' = Flagged)"
    unfolding a by auto
  from mock_confidence [OF assms(3,4)]
  have "jle (rnd (7 / 10)) (confidence (snd (analyzeSensitivityMock e)))
      \<and> jle (confidence (snd (analyzeSensitivityMock e))) (Fin 1)"
    by (auto simp: jle_def rnd_c07 fl_c07)
  with last_event_of_returning [OF assms(1), of v]
  have c: "\<exists>f c i d. last (events_of (fst (processVideo e v)))
            = Complete f c i d (meta_duration m) (meta_width m, meta_height m) (codec m)
          \<and> c = confidence (snd (analyzeSensitivityMock e))
          \<and> jle (rnd (7 / 10)) c \<and> jle c (Fin 1)"
    unfolding a by blast
  from a b c show ?thesis by blast
qed

lemma probe_env_no_frames: "getVideoMetadata env_no_frames = getVideoMetadata env_no_key"
  by (simp add: getVideoMetadata_def env_no_frames_def env_no_key_def)

lemma mock_fallback_completes_examples:
  "(\<exists>m. getVideoMetadata env_no_key = ProbeResolved m)
   \<and> (\<exists>m. getVideoMetadata env_no_frames = ProbeResolved m)
   \<and> (\<exists>m. getVideoMetadata env_calls_fail = ProbeResolved m)
   \<and> 0 \<le> Math_random env_no_key 1 \<and> Math_random env_no_key 1 < 1
   \<and> 0 \<le> Math_random env_no_frames 1 \<and> Math_random env_no_frames 1 < 1
   \<and> 0 \<le> Math_random env_calls_fail 1 \<and> Math_random env_calls_fail 1 < 1
   \<and> no_apiKey env_no_key
   \<and> (\<exists>v'. snd (processVideo env_no_key job0) = Returns v' \<and> status v' = Completed)
   \<and> \<not> no_apiKey env_no_frames
   \<and> snd (extractFrames env_no_frames 5) = Inl ''ffmpeg exited with code 1''
   \<and> (\<exists>v'. snd (processVideo env_no_frames job0) = Returns v' \<and> status v' = Completed)
   \<and> \<not> no_apiKey env_calls_fail
   \<and> list_all (\<lambda>a. a = ApiThrows)
        (outcomes env_calls_fail (projr (snd (extractFrames env_calls_fail 5))))
   \<and> (\<exists>v'. snd (processVideo env_calls_fail job0) = Returns v' \<and> status v' = Completed)"
proof -
  have k: "no_apiKey env_no_key" "\<not> no_apiKey env_no_frames" "\<not> no_apiKey env_calls_fail"
    by (simp_all add: no_apiKey_def env_no_key_def env_no_frames_def env_calls_fail_def)
  have x: "snd (extractFrames env_no_frames 5) = Inl ''ffmpeg exited with code 1''"
    by (simp add: extractFrames_def env_no_frames_def env_no_key_def)
  have y: "snd (extractFrames env_calls_fail 5)
      = Inr (projr (snd (extractFrames env_calls_fail 5)))"
    by (simp add: frames_env_calls_fail)
  have z: "list_all (\<lambda>a. a = ApiThrows)
        (outcomes env_calls_fail (projr (snd (extractFrames env_calls_fail 5))))"
    by (simp add: outcomes_def list_all_iff env_calls_fail_def env_no_key_def case_prod_unfold)
  have r: "(0::rat) \<le> Math_random env_no_key 1" "Math_random env_no_key 1 < 1"
    "(0::rat) \<le> Math_random env_no_frames 1" "Math_random env_no_frames 1 < 1"
    "(0::rat) \<le> Math_random env_calls_fail 1" "Math_random env_calls_fail 1 < 1"
    by (simp_all add: env_no_key_def env_no_frames_def env_calls_fail_def)
  have p: "getVideoMetadata env_no_frames = getVideoMetadata env_no_key"
    "getVideoMetadata env_calls_fail = getVideoMetadata env_no_key"
    by (simp_all add: probe_env_no_frames probe_env_calls_fail)
  note q = probe_env_no_key
  from mock_fallback_completes [OF q, of job0] k(1) r(1,2)
  have 1: "\<exists>v'. snd (processVideo env_no_key job0) = Returns v' \<and> status v' = Completed"
    by blast
  from mock_fallback_completes [OF p(1) [unfolded q], of job0] x r(3,4)
  have 2: "\<exists>v'. snd (processVideo env_no_frames job0) = Returns v' \<and> status v' = Completed"
    by blast
  from mock_fallback_completes [OF p(2) [unfolded q], of job0] y z r(5,6)
  have 3: "\<exists>v'. snd (processVideo env_calls_fail job0) = Returns v' \<and> status v' = Completed"
    by blast
  from k x z 1 2 3 r p q show ?thesis by simp
qed

section \<open>A single classified frame\<close>

lemma rnd_c04: "rnd (2 / 5) = Fin (3602879701896397 / 9007199254740992)"
  using fl_cert [of "2 / 5" "- 2" 7205759403792794] by (simp add: rnd_def)

lemma rnd_c04_id: "rnd (3602879701896397 / 9007199254740992) = Fin (3602879701896397 / 9007199254740992)"
  using fl_cert [of "3602879701896397 / 9007199254740992" "- 2" 7205759403792794] by (simp add: rnd_def)

lemma rnd_c07_id: "rnd (3152519739159347 / 4503599627370496) = Fin (3152519739159347 / 4503599627370496)"
  using fl_cert [of "3152519739159347 / 4503599627370496" "- 1" 6305039478318694] by (simp add: rnd_def)

lemma rnd_c08: "rnd (4 / 5) = Fin (3602879701896397 / 4503599627370496)"
  using fl_cert [of "4 / 5" "- 1" 7205759403792794] by (simp add: rnd_def)

lemma rnd_c08_id: "rnd (3602879701896397 / 4503599627370496) = Fin (3602879701896397 / 4503599627370496)"
  using fl_cert [of "3602879701896397 / 4503599627370496" "- 1" 7205759403792794] by (simp add: rnd_def)

lemma rnd_c08_c11: "rnd (8924260225606736202508689955881 / 10141204801825835211973625643008) = Fin (3963167672086037 / 4503599627370496)"
  using fl_cert [of "8924260225606736202508689955881 / 10141204801825835211973625643008" "- 1" 7926335344172074] by (simp add: rnd_def)

lemma rnd_c088: "rnd (22 / 25) = Fin (7926335344172073 / 9007199254740992)"
  using fl_cert [of "22 / 25" "- 1" 7926335344172073] by (simp add: rnd_def)

lemma frame_tally_outcome:
  "frame_tally e i f t = tally_outcome (i, callHuggingFaceAPI e i (buffer f)) t"
  by (cases "callHuggingFaceAPI e i (buffer f)") (simp_all add: frame_tally_def)

lemma frame_loop_fold:
  "snd (frame_loop e n i fs t)
     = fold tally_outcome
         (zip [i ..< i + length fs]
            (map (\<lambda>(j, f). callHuggingFaceAPI e j (buffer f)) (enumerate i fs))) t"
proof (induction fs arbitrary: i t)
  case Nil
  then show ?case by simp
next
  case (Cons f fs)
  let ?g = "\<lambda>(j, f). callHuggingFaceAPI e j (buffer f)"
  have u: "[i ..< i + length (f # fs)] = i # [Suc i ..< Suc i + length fs]"
    by (simp add: upt_rec)
  have "snd (frame_loop e n i (f # fs) t) = snd (frame_loop e n (Suc i) fs (frame_tally e i f t))"
    by (simp add: case_prod_unfold Let_def)
  also have "\<dots> = fold tally_outcome
      (zip [Suc i ..< Suc i + length fs] (map ?g (enumerate (Suc i) fs))) (frame_tally e i f t)"
    by (rule Cons)
  also have "\<dots> = fold tally_outcome
      (zip (i # [Suc i ..< Suc i + length fs]) (map ?g (enumerate i (f # fs)))) t"
    by (simp add: frame_tally_outcome del: upt_Suc)
  finally show ?case by (simp only: u)
qed

lemma fold_throws: "fold tally_outcome (zip js (replicate k ApiThrows)) t = t"
proof (induction k arbitrary: js)
  case 0
  then show ?case by simp
next
  case (Suc k)
  then show ?case by (cases js) simp_all
qed

lemma single_success:
  assumes "outcomes e frames = replicate j ApiThrows @ ApiReturns result # replicate k ApiThrows"
  shows "snd (frame_loop e n 0 frames t) = tally_frame j result t"
proof -
  have "length (outcomes e frames) = length frames" by (simp add: outcomes_def)
  with assms have len: "length frames = j + Suc k" by simp
  have u: "[0 ..< j + Suc k] = [0 ..< j] @ j # [Suc j ..< Suc j + k]"
    by (metis add_Suc_right le_add1 less_add_Suc1 upt_add_eq_append upt_conv_Cons zero_le add_Suc)
  have z: "zip ([0 ..< j] @ j # [Suc j ..< Suc j + k])
             (replicate j ApiThrows @ ApiReturns result # replicate k ApiThrows)
         = zip [0 ..< j] (replicate j ApiThrows) @ (j, ApiReturns result)
             # zip [Suc j ..< Suc j + k] (replicate k ApiThrows)"
    by simp
  have "snd (frame_loop e n 0 frames t)
      = fold tally_outcome (zip [0 ..< j + Suc k] (outcomes e frames)) t"
    using frame_loop_fold [of e n 0 frames t] by (simp add: len outcomes_def)
  also have "\<dots> = tally_frame j result t"
    unfolding assms u z by (simp add: fold_throws)
  finally show ?thesis .
qed

lemma loop_tally_single:
  assumes "snd (extractFrames e 5) = Inr frames"
    and "outcomes e frames = replicate j ApiThrows @ ApiReturns result # replicate k ApiThrows"
  shows "loop_tally e = tally_frame j result empty_tally"
  using assms(1) single_success [OF assms(2)] by (simp add: loop_tally_def)

lemma tally_single:
  assumes "map_option fst (frame_scores result) = Some (Fin s)" and "rnd s = Fin s"
  shows "totalNsfwScore (tally_frame j result empty_tally) = Fin s"
    and "apiSuccessCount (tally_frame j result empty_tally) = 1"
    and "flaggedFrames (tally_frame j result empty_tally)
          = (if fl (6 / 10) < s then 1 else 0)"
    and "average_of (tally_frame j result empty_tally) = Fin s"
  using assms
  by (auto simp: tally_frame_def empty_tally_def average_of_def case_prod_unfold Let_def
      jgt_def rnd_c06 fl_c06)

lemma scores_env_third_frame:
  "rnd s = Fin v \<Longrightarrow> 0 < v \<Longrightarrow>
   map_option fst (frame_scores (ResultArray [Entry (Some ''nsfw'') (rnd s),
                                               Entry (Some ''normal'') (rnd (1 - s))]))
     = Some (Fin v)"
  by (simp add: frame_scores_def keyword_defs Math_max_def jeq_def split: prod.splits)

lemma loop_tally_env_third_frame:
  "loop_tally (env_third_frame s)
     = tally_frame 2
         (ResultArray [Entry (Some ''nsfw'') (rnd s), Entry (Some ''normal'') (rnd (1 - s))])
         empty_tally"
proof -
  have "snd (extractFrames (env_third_frame s) 5)
      = Inr (projr (snd (extractFrames env_calls_fail 5)))"
    by (simp add: frames_env_third_frame frames_env_calls_fail)
  then show ?thesis using outcomes_env_third_frame [of s] by (rule loop_tally_single)
qed

section \<open>The decision\<close>

text \<open>
  C3: on the classification path, which a run with an API key takes when a call of the
  classifier returned, and so whenever a frame classified, the verdict is \<open>safe\<close>
  exactly when no frame was flagged and the average score is below 0.5, and \<open>flagged\<close>
  otherwise. So an average of 0.4 with no flagged frame gives \<open>safe\<close>, an
  average of 0.7 gives \<open>flagged\<close>, and a flagged frame gives \<open>flagged\<close> whatever the
  average. The average is the quotient the code computes from its variables after the
  loop, and the verdict carries the counts.
\<close>

theorem C3_decision:
  assumes "real_path e"
  shows "(verdict_flag (snd (analyzeSensitivity e)) = Safe \<longleftrightarrow>
            flaggedFrames (loop_tally e) = 0 \<and> jlt (average_of (loop_tally e)) (rnd (1 / 2)))
    \<and> (verdict_flag (snd (analyzeSensitivity e)) = Flagged \<longleftrightarrow>
            \<not> (flaggedFrames (loop_tally e) = 0 \<and> jlt (average_of (loop_tally e)) (rnd (1 / 2))))
    \<and> (flaggedFrames (loop_tally e) = 0 \<and> average_of (loop_tally e) = rnd (4 / 10) \<longrightarrow>
            verdict_flag (snd (analyzeSensitivity e)) = Safe)
    \<and> (average_of (loop_tally e) = rnd (7 / 10) \<longrightarrow>
            verdict_flag (snd (analyzeSensitivity e)) = Flagged)
    \<and> (1 \<le> flaggedFrames (loop_tally e) \<longrightarrow>
            verdict_flag (snd (analyzeSensitivity e)) = Flagged)
    \<and> (\<exists>d. verdict_details (snd (analyzeSensitivity e)) = Some d
          \<and> details_flaggedFrames d = flaggedFrames (loop_tally e)
          \<and> successfulAnalyses d = apiSuccessCount (loop_tally e)
          \<and> 1 \<le> successfulAnalyses d)"
  using assms
  by (simp add: analyzeSensitivity_real final_verdict_def Let_def average_of_def real_path_def
      rnd_half rnd_c04 rnd_c07)

theorem C3_decision_witness:
  "real_path (env_third_frame (4 / 10))
   \<and> flaggedFrames (loop_tally (env_third_frame (4 / 10))) = 0
   \<and> average_of (loop_tally (env_third_frame (4 / 10))) = rnd (4 / 10)
   \<and> verdict_flag (snd (analyzeSensitivity (env_third_frame (4 / 10)))) = Safe
   \<and> real_path (env_third_frame (7 / 10))
   \<and> flaggedFrames (loop_tally (env_third_frame (7 / 10))) = 1
   \<and> average_of (loop_tally (env_third_frame (7 / 10))) = rnd (7 / 10)
   \<and> verdict_flag (snd (analyzeSensitivity (env_third_frame (7 / 10)))) = Flagged"
proof -
  have a: "flaggedFrames (loop_tally (env_third_frame (4 / 10))) = 0"
    "average_of (loop_tally (env_third_frame (4 / 10))) = rnd (4 / 10)"
    using tally_single [OF scores_env_third_frame [of "4 / 10", OF _ _] rnd_c04_id, of 2]
    by (simp_all add: loop_tally_env_third_frame rnd_c04 fl_c06)
  have b: "flaggedFrames (loop_tally (env_third_frame (7 / 10))) = 1"
    "average_of (loop_tally (env_third_frame (7 / 10))) = rnd (7 / 10)"
    using tally_single [OF scores_env_third_frame [of "7 / 10", OF _ _] rnd_c07_id, of 2]
    by (simp_all add: loop_tally_env_third_frame rnd_c07 fl_c06)
  from C3_decision [OF real_path_env_third_frame [of "4 / 10"]]
    C3_decision [OF real_path_env_third_frame [of "7 / 10"]] a b
    real_path_env_third_frame [of "4 / 10"] real_path_env_third_frame [of "7 / 10"]
  show ?thesis by simp
qed

section \<open>One frame of score 0.8\<close>

text \<open>
  If exactly one call of the classifier returns, for a frame whose \<open>nsfwScore\<close> is 0.8,
  and every other call throws, then the average is 0.8, the verdict is \<open>flagged\<close> and
  the confidence is 0.88. The product 0.8 * 1.1 of the language is not 0.88; the
  rounding to three decimals of the returned value makes it so. All numbers are the
  binary64 values of the literals.
\<close>

lemma single_returned_frame:
  assumes "\<not> no_apiKey e"
    and "snd (extractFrames e 5) = Inr frames"
    and "outcomes e frames = replicate j ApiThrows @ ApiReturns result # replicate k ApiThrows"
    and "map_option fst (frame_scores result) = Some (rnd (8 / 10))"
  shows "apiSuccessCount (loop_tally e) = 1
    \<and> average_of (loop_tally e) = rnd (8 / 10)
    \<and> verdict_flag (snd (analyzeSensitivity e)) = Flagged
    \<and> confidence (snd (analyzeSensitivity e)) = rnd (88 / 100)
    \<and> confidence (snd (analyzeSensitivity e))
        = toFixed_parseFloat 3 (Math_min (jmul (rnd (8 / 10)) (rnd (11 / 10))) (rnd (99 / 100)))
    \<and> jmul (rnd (8 / 10)) (rnd (11 / 10)) \<noteq> rnd (88 / 100)
    \<and> (\<exists>d. verdict_details (snd (analyzeSensitivity e)) = Some d
          \<and> averageNsfwScore d = rnd (8 / 10) \<and> successfulAnalyses d = 1
          \<and> details_flaggedFrames d = 1 \<and> totalFramesAnalyzed d = j + 1 + k)"
proof -
  let ?t = "tally_frame j result empty_tally"
  have t: "loop_tally e = ?t" using assms(2,3) by (rule loop_tally_single)
  have s: "map_option fst (frame_scores result) = Some (Fin (3602879701896397 / 4503599627370496))"
    using assms(4) by (simp add: rnd_c08)
  note ts = tally_single [OF s rnd_c08_id, of j]
  have r: "real_path e" using assms(1) by (simp add: real_path_def t ts)
  have "length (outcomes e frames) = length frames" by (simp add: outcomes_def)
  with assms(3) have len: "length frames = j + 1 + k" by simp
  have av: "jdiv (totalNsfwScore ?t) (Fin (of_nat (apiSuccessCount ?t)))
      = Fin (3602879701896397 / 4503599627370496)"
    using ts(4) by (simp add: average_of_def)
  have fl: "flaggedFrames ?t = 1" using ts(3) by (simp add: fl_c06)
  have v: "snd (analyzeSensitivity e) = final_verdict (j + 1 + k) ?t"
    using analyzeSensitivity_real [OF r] by (simp add: assms(2) len t)
  have c: "toFixed_parseFloat 3 (Math_min (jmul (rnd (8 / 10)) (rnd (11 / 10))) (rnd (99 / 100)))
      = rnd (88 / 100)"
    by (simp add: rnd_c08 rnd_c11 rnd_c099 rnd_c08_c11 rnd_c088 Math_min_def floor_rat_numeral)
  have a4: "toFixed_parseFloat 4 (Fin (3602879701896397 / 4503599627370496)) = rnd (8 / 10)"
    by (simp add: floor_rat_numeral rnd_c08)
  have ne: "jmul (rnd (8 / 10)) (rnd (11 / 10)) \<noteq> rnd (88 / 100)"
    by (simp add: rnd_c08 rnd_c11 rnd_c08_c11 rnd_c088)
  have conf: "confidence (final_verdict (j + 1 + k) ?t)
      = toFixed_parseFloat 3 (Math_min (jmul (rnd (8 / 10)) (rnd (11 / 10))) (rnd (99 / 100)))"
    unfolding final_verdict_def Let_def av fl by (simp add: rnd_c08)
  have det: "verdict_details (final_verdict (j + 1 + k) ?t)
      = Some \<lparr>totalFramesAnalyzed = j + 1 + k, successfulAnalyses = 1,
              details_flaggedFrames = 1, averageNsfwScore = rnd (8 / 10)\<rparr>"
    unfolding final_verdict_def Let_def av fl a4 by (simp add: ts(2))
  have flag: "verdict_flag (final_verdict (j + 1 + k) ?t) = Flagged"
    unfolding final_verdict_def Let_def fl by simp
  show ?thesis
    unfolding v t using ts(2) ts(4) conf c ne det flag by (simp add: rnd_c08)
qed

lemma single_returned_frame_example:
  "\<not> no_apiKey (env_third_frame (8 / 10))
   \<and> snd (extractFrames (env_third_frame (8 / 10)) 5)
       = Inr (projr (snd (extractFrames env_calls_fail 5)))
   \<and> map_option fst
        (frame_scores (ResultArray [Entry (Some ''nsfw'') (rnd (8 / 10)),
                                    Entry (Some ''normal'') (rnd (1 - 8 / 10))]))
       = Some (rnd (8 / 10))
   \<and> outcomes (env_third_frame (8 / 10)) (projr (snd (extractFrames env_calls_fail 5)))
      = replicate 2 ApiThrows
        @ ApiReturns (ResultArray [Entry (Some ''nsfw'') (rnd (8 / 10)),
                                    Entry (Some ''normal'') (rnd (1 - 8 / 10))])
        # replicate 2 ApiThrows
   \<and> verdict_flag (snd (analyzeSensitivity (env_third_frame (8 / 10)))) = Flagged
   \<and> confidence (snd (analyzeSensitivity (env_third_frame (8 / 10)))) = rnd (88 / 100)"
proof -
  have k: "\<not> no_apiKey (env_third_frame (8 / 10))"
    by (simp add: no_apiKey_def env_third_frame_def env_calls_fail_def env_no_key_def)
  have x: "snd (extractFrames (env_third_frame (8 / 10)) 5)
      = Inr (projr (snd (extractFrames env_calls_fail 5)))"
    by (simp add: frames_env_third_frame frames_env_calls_fail)
  have s: "map_option fst
        (frame_scores (ResultArray [Entry (Some ''nsfw'') (rnd (8 / 10)),
                                    Entry (Some ''normal'') (rnd (1 - 8 / 10))]))
       = Some (rnd (8 / 10))"
    using scores_env_third_frame [of "8 / 10" "3602879701896397 / 4503599627370496"]
    by (simp add: rnd_c08)
  from single_returned_frame [OF k x outcomes_env_third_frame [of "8 / 10"] s] k x s
    outcomes_env_third_frame [of "8 / 10"]
  show ?thesis by simp
qed

section \<open>Answers that cannot be read\<close>

lemma rnd_one: "rnd 1 = Fin 1"
  by (simp add: rnd_def fl_one)

lemma rnd_c11_id: "rnd (2476979795053773 / 2251799813685248) = Fin (2476979795053773 / 2251799813685248)"
  using fl_cert [of "2476979795053773 / 2251799813685248" "0" 4953959590107546] by (simp add: rnd_def)

lemma rnd_c02: "rnd (1 / 5) = Fin (3602879701896397 / 18014398509481984)"
  using fl_cert [of "1 / 5" "- 3" 7205759403792794] by (simp add: rnd_def)

lemma rnd_c08_fifth: "rnd (3602879701896397 / 22517998136852480) = Fin (5764607523034235 / 36028797018963968)"
  using fl_cert [of "3602879701896397 / 22517998136852480" "- 3" 5764607523034235] by (simp add: rnd_def)

lemma rnd_c016: "rnd (4 / 25) = Fin (5764607523034235 / 36028797018963968)"
  using fl_cert [of "4 / 25" "- 3" 5764607523034235] by (simp add: rnd_def)

lemma rnd_c016_c11: "rnd (14278816360970777428617944918655 / 81129638414606681695789005144064) = Fin (6341068275337659 / 36028797018963968)"
  using fl_cert [of "14278816360970777428617944918655 / 81129638414606681695789005144064" "- 3" 6341068275337659] by (simp add: rnd_def)

lemma rnd_c0176: "rnd (22 / 125) = Fin (3170534137668829 / 18014398509481984)"
  using fl_cert [of "22 / 125" "- 3" 6341068275337658] by (simp add: rnd_def)

lemma rnd_c08_100: "rnd (90071992547409925 / 1125899906842624) = Fin 80"
  using fl_cert [of "90071992547409925 / 1125899906842624" "6" 5629499534213120] by (simp add: rnd_def)

lemma loop_outcomes_five:
  assumes "snd (extractFrames e 5) = snd (extractFrames env_calls_fail 5)"
  shows "loop_outcomes e = map (\<lambda>i. callHuggingFaceAPI e i ''jpeg'') [0, 1, 2, 3, 4]"
proof -
  have "loop_outcomes e
      = outcomes e [\<lparr>frame_no = 1, buffer = ''jpeg''\<rparr>, \<lparr>frame_no = 2, buffer = ''jpeg''\<rparr>,
           \<lparr>frame_no = 3, buffer = ''jpeg''\<rparr>, \<lparr>frame_no = 4, buffer = ''jpeg''\<rparr>,
           \<lparr>frame_no = 5, buffer = ''jpeg''\<rparr>]"
    using assms by (simp add: loop_outcomes_def frames_env_calls_fail)
  then show ?thesis by (simp add: outcomes_def eval_nat_numeral)
qed

lemma loop_tally_five:
  assumes "snd (extractFrames e 5) = snd (extractFrames env_calls_fail 5)"
  shows "loop_tally e = fold tally_outcome (zip [0, 1, 2, 3, 4] (loop_outcomes e)) empty_tally"
proof -
  define fr where "fr = projr (snd (extractFrames env_calls_fail 5))"
  have ex: "snd (extractFrames e 5) = Inr fr" and len: "length fr = 5"
    using assms by (simp_all add: fr_def frames_env_calls_fail)
  have u: "[0 ..< 5] = [0, 1, 2, 3, 4::nat]" by (simp add: upt_rec)
  have "loop_tally e = snd (frame_loop e 5 0 fr empty_tally)"
    using ex len by (simp add: loop_tally_def)
  also have "\<dots> = fold tally_outcome (zip [0 ..< 0 + length fr] (outcomes e fr)) empty_tally"
    unfolding outcomes_def by (rule frame_loop_fold)
  also have "\<dots> = fold tally_outcome (zip [0, 1, 2, 3, 4] (loop_outcomes e)) empty_tally"
    using ex len u by (simp add: loop_outcomes_def)
  finally show ?thesis .
qed

lemma frames_env_unreadable:
  "snd (extractFrames env_unreadable 5) = snd (extractFrames env_calls_fail 5)"
  "snd (extractFrames env_one_readable 5) = snd (extractFrames env_calls_fail 5)"
  "snd (extractFrames env_missing_score 5) = snd (extractFrames env_calls_fail 5)"
  by (simp_all add: extractFrames_def env_unreadable_def env_one_readable_def
      env_missing_score_def)

lemma key_env_unreadable:
  "\<not> no_apiKey env_unreadable" "\<not> no_apiKey env_one_readable" "\<not> no_apiKey env_missing_score"
  by (simp_all add: no_apiKey_def env_unreadable_def env_one_readable_def env_missing_score_def
      env_calls_fail_def env_no_key_def)

lemma length_frames_env_calls_fail: "length (projr (snd (extractFrames env_calls_fail 5))) = 5"
  by (simp add: frames_env_calls_fail)

lemma scores_unreadable: "frame_scores (ResultArray [Unreadable]) = None"
  by (simp add: frame_scores_def)

lemma scores_readable:
  "frame_scores (ResultArray [Entry (Some ''nsfw'') (Fin (3602879701896397 / 4503599627370496)),
                               Entry (Some ''normal'') (Fin (3602879701896397 / 18014398509481984))])
     = Some (Fin (3602879701896397 / 4503599627370496),
             Fin (3602879701896397 / 18014398509481984))"
  by (simp add: frame_scores_def keyword_defs Math_max_def jeq_def)

lemma scores_missing: "frame_scores (ResultArray [Entry (Some ''nsfw'') NaN]) = Some (NaN, Fin 0)"
  by (simp add: frame_scores_def keyword_defs Math_max_def jeq_def)

lemma loop_outcomes_env_unreadable:
  "loop_outcomes env_unreadable = replicate 5 (ApiReturns (ResultArray [Unreadable]))"
  by (simp only: loop_outcomes_five [OF frames_env_unreadable(1)])
    (simp add: env_unreadable_def eval_nat_numeral)

lemma loop_tally_env_unreadable:
  "loop_tally env_unreadable
     = \<lparr>flaggedFrames = 0, totalNsfwScore = Fin 0, issues = [], apiSuccessCount = 5\<rparr>"
  by (simp add: loop_tally_five [OF frames_env_unreadable(1)] loop_outcomes_env_unreadable
      eval_nat_numeral tally_frame_def Let_def scores_unreadable empty_tally_def)

lemma loop_outcomes_env_one_readable:
  "loop_outcomes env_one_readable
     = [ApiReturns (ResultArray [Unreadable]), ApiReturns (ResultArray [Unreadable]),
        ApiReturns (ResultArray [Entry (Some ''nsfw'') (rnd (8 / 10)),
                                  Entry (Some ''normal'') (rnd (2 / 10))]),
        ApiReturns (ResultArray [Unreadable]), ApiReturns (ResultArray [Unreadable])]"
  by (simp only: loop_outcomes_five [OF frames_env_unreadable(2)])
    (simp add: env_one_readable_def)

lemma loop_tally_env_one_readable:
  "loop_tally env_one_readable
     = \<lparr>flaggedFrames = 1, totalNsfwScore = rnd (8 / 10), issues = [FrameIssue 3 (Fin 80)],
        apiSuccessCount = 5\<rparr>"
  by (simp add: loop_tally_five [OF frames_env_unreadable(2)] loop_outcomes_env_one_readable
      tally_frame_def Let_def scores_unreadable scores_readable empty_tally_def
      rnd_c08 rnd_c02 rnd_c08_id rnd_c06 rnd_c08_100 jgt_def)

lemma loop_outcomes_env_missing_score:
  "loop_outcomes env_missing_score
     = replicate 5 (ApiReturns (ResultArray [Entry (Some ''nsfw'') NaN]))"
  by (simp only: loop_outcomes_five [OF frames_env_unreadable(3)])
    (simp add: env_missing_score_def eval_nat_numeral)

lemma loop_tally_env_missing_score:
  "loop_tally env_missing_score
     = \<lparr>flaggedFrames = 0, totalNsfwScore = NaN, issues = [], apiSuccessCount = 5\<rparr>"
  by (simp add: loop_tally_five [OF frames_env_unreadable(3)] loop_outcomes_env_missing_score
      eval_nat_numeral tally_frame_def Let_def scores_missing empty_tally_def jgt_def rnd_c06)

lemma real_path_env_unreadable:
  "real_path env_unreadable" "real_path env_one_readable" "real_path env_missing_score"
  by (simp_all add: real_path_def key_env_unreadable loop_tally_env_unreadable
      loop_tally_env_one_readable loop_tally_env_missing_score)

lemma verdict_env_unreadable:
  "snd (analyzeSensitivity env_unreadable)
     = \<lparr>verdict_flag = Safe, confidence = rnd (99 / 100), detectedIssues = [],
        verdict_details =
          Some \<lparr>totalFramesAnalyzed = 5, successfulAnalyses = 5, details_flaggedFrames = 0,
                averageNsfwScore = Fin 0\<rparr>\<rparr>"
  by (simp add: analyzeSensitivity_real [OF real_path_env_unreadable(1)] frames_env_unreadable
      length_frames_env_calls_fail loop_tally_env_unreadable final_verdict_def Let_def
      rnd_zero rnd_half jsub_def rnd_one rnd_c11 rnd_c11_id rnd_c099 Math_min_def
      floor_rat_numeral)

lemma verdict_env_one_readable:
  "snd (analyzeSensitivity env_one_readable)
     = \<lparr>verdict_flag = Flagged, confidence = rnd (176 / 1000),
        detectedIssues = [FrameIssue 3 (Fin 80)],
        verdict_details =
          Some \<lparr>totalFramesAnalyzed = 5, successfulAnalyses = 5, details_flaggedFrames = 1,
                averageNsfwScore = rnd (16 / 100)\<rparr>\<rparr>"
  by (simp add: analyzeSensitivity_real [OF real_path_env_unreadable(2)] frames_env_unreadable
      length_frames_env_calls_fail loop_tally_env_one_readable final_verdict_def Let_def
      rnd_c08 rnd_c08_fifth rnd_c11 rnd_c016_c11 rnd_c099 rnd_c0176 rnd_c016 Math_min_def
      floor_rat_numeral)

lemma verdict_env_missing_score:
  "snd (analyzeSensitivity env_missing_score)
     = \<lparr>verdict_flag = Flagged, confidence = NaN, detectedIssues = [],
        verdict_details =
          Some \<lparr>totalFramesAnalyzed = 5, successfulAnalyses = 5, details_flaggedFrames = 0,
                averageNsfwScore = NaN\<rparr>\<rparr>"
  by (simp add: analyzeSensitivity_real [OF real_path_env_unreadable(3)] frames_env_unreadable
      length_frames_env_calls_fail loop_tally_env_missing_score final_verdict_def Let_def
      Math_min_def)

text \<open>
  A frame that classifies is a frame whose call returned: a run with an API key and a
  classified frame takes its verdict from the classifier.
\<close>

lemma classified_real_path:
  assumes "\<not> no_apiKey e" and "filter classified (loop_outcomes e) \<noteq> []"
  shows "real_path e"
proof (cases "snd (extractFrames e 5)")
  case (Inl err)
  with assms(2) show ?thesis by (simp add: loop_outcomes_def)
next
  case (Inr frames)
  with assms(2) obtain a where a: "a \<in> set (outcomes e frames)" "classified a"
    by (auto simp: loop_outcomes_def filter_empty_conv)
  then have "a \<noteq> ApiThrows" by auto
  with a(1) have "\<not> list_all (\<lambda>a. a = ApiThrows) (outcomes e frames)"
    by (auto simp: list_all_iff)
  with assms(1) Inr show ?thesis unfolding real_path_iff by simp
qed

text \<open>
  The frames that do not classify leave the total score, the flagged frames and the
  issues as they are; those among them whose call returned are counted all the same.
\<close>

lemma unclassified_cases:
  assumes "\<not> classified a"
  obtains "a = ApiThrows" | r where "a = ApiReturns r" "frame_scores r = None"
  using assms by (cases a) (simp_all del: not_None_eq)

lemma tally_outcome_unclassified:
  assumes "\<not> classified a"
  shows "totalNsfwScore (tally_outcome (j, a) t) = totalNsfwScore t"
    and "flaggedFrames (tally_outcome (j, a) t) = flaggedFrames t"
    and "issues (tally_outcome (j, a) t) = issues t"
  using assms by (auto elim!: unclassified_cases simp: tally_frame_def)

lemma fold_unclassified:
  assumes "\<forall>x \<in> set xs. \<not> classified (snd x)"
  shows "totalNsfwScore (fold tally_outcome xs t) = totalNsfwScore t
    \<and> flaggedFrames (fold tally_outcome xs t) = flaggedFrames t
    \<and> issues (fold tally_outcome xs t) = issues t"
  using assms
proof (induction xs arbitrary: t)
  case Nil
  then show ?case by simp
next
  case (Cons x xs)
  obtain j a where x: "x = (j, a)" by (cases x)
  with Cons.prems have "\<not> classified a" by simp
  note u = tally_outcome_unclassified [OF this, of j t]
  from Cons.prems have "\<forall>x \<in> set xs. \<not> classified (snd x)" by simp
  from Cons.IH [OF this, of "tally_outcome (j, a) t"] u x show ?case by simp
qed

lemma loop_tally_unclassified:
  assumes "filter classified (loop_outcomes e) = []"
  shows "totalNsfwScore (loop_tally e) = Fin 0" and "flaggedFrames (loop_tally e) = 0"
proof -
  have "totalNsfwScore (loop_tally e) = Fin 0 \<and> flaggedFrames (loop_tally e) = 0"
  proof (cases "snd (extractFrames e 5)")
    case (Inl err)
    then show ?thesis by (simp add: loop_tally_def empty_tally_def)
  next
    case (Inr frames)
    with assms have n: "\<forall>a \<in> set (outcomes e frames). \<not> classified a"
      by (simp add: loop_outcomes_def filter_empty_conv)
    have "\<forall>x \<in> set (zip [0 ..< 0 + length frames] (outcomes e frames)). \<not> classified (snd x)"
      using n by (auto dest: set_zip_rightD)
    from fold_unclassified [OF this, of empty_tally]
      frame_loop_fold [of e "length frames" 0 frames empty_tally] Inr
    show ?thesis by (simp add: loop_tally_def outcomes_def empty_tally_def)
  qed
  then show "totalNsfwScore (loop_tally e) = Fin 0" and "flaggedFrames (loop_tally e) = 0"
    by simp_all
qed

text \<open>
  So a run in which a call returned and no frame classified does not fall back to the
  mock classifier: its verdict is \<open>safe\<close> with confidence 0.99, from a total of 0.
\<close>

lemma unclassified_real_path_verdict:
  assumes "real_path e" and "filter classified (loop_outcomes e) = []"
  shows "verdict_flag (snd (analyzeSensitivity e)) = Safe"
    and "confidence (snd (analyzeSensitivity e)) = rnd (99 / 100)"
    and "verdict_details (snd (analyzeSensitivity e)) \<noteq> None"
proof -
  from assms(1) have k: "0 < apiSuccessCount (loop_tally e)" by (simp add: real_path_def)
  then have "(of_nat (apiSuccessCount (loop_tally e)) :: rat) \<noteq> 0" by simp
  then have avg: "jdiv (Fin 0) (Fin (of_nat (apiSuccessCount (loop_tally e)))) = Fin 0"
    by (simp add: rnd_zero)
  note t = loop_tally_unclassified [OF assms(2)]
  show "verdict_flag (snd (analyzeSensitivity e)) = Safe"
    unfolding analyzeSensitivity_real [OF assms(1)] final_verdict_def Let_def t avg
    by (simp add: rnd_half)
  show "confidence (snd (analyzeSensitivity e)) = rnd (99 / 100)"
    unfolding analyzeSensitivity_real [OF assms(1)] final_verdict_def Let_def t avg
    by (simp add: rnd_half jsub_def rnd_one rnd_c11 rnd_c11_id rnd_c099 Math_min_def
        floor_rat_numeral)
  show "verdict_details (snd (analyzeSensitivity e)) \<noteq> None"
    unfolding analyzeSensitivity_real [OF assms(1)] final_verdict_def Let_def
    by simp
qed

lemma verdict_mock_env_unreadable:
  "verdict_details (snd (analyzeSensitivityMock env_unreadable)) = None"
  by (simp add: analyzeSensitivityMock_def Let_def del: mock_interval.simps)

lemma events_env_unreadable:
  "fst (analyzeSensitivity env_unreadable)
     = Progress (Fin 25) (ExtractingFrames 5) # map (frame_event 5) [0, 1, 2, 3, 4]"
proof -
  define fr where "fr = projr (snd (extractFrames env_calls_fail 5))"
  have ex: "snd (extractFrames env_unreadable 5) = Inr fr" and len: "length fr = 5"
    by (simp_all add: fr_def frames_env_unreadable frames_env_calls_fail)
  have u: "[0 ..< 5] = [0, 1, 2, 3, 4::nat]" by (simp add: upt_rec)
  have "snd (frame_loop env_unreadable 5 0 fr empty_tally) = loop_tally env_unreadable"
    using ex len by (simp add: loop_tally_def)
  then have z: "apiSuccessCount (snd (frame_loop env_unreadable 5 0 fr empty_tally)) \<noteq> 0"
    by (simp add: loop_tally_env_unreadable)
  show ?thesis
    by (simp only: analyzeSensitivity_frames [OF key_env_unreadable(1) ex] len z u) simp
qed

lemma probe_env_unreadable:
  "getVideoMetadata env_unreadable = getVideoMetadata env_no_key"
  "getVideoMetadata env_one_readable = getVideoMetadata env_no_key"
  by (simp_all add: getVideoMetadata_def env_unreadable_def env_one_readable_def
      env_calls_fail_def env_no_key_def)

text \<open>
  C5: when no frame classifies successfully, the verdict is to be the mock classifier's.
  The count that decides on the fallback (line 263) is raised at line 192, as soon as a
  call returns and before the response is read, although the handler of line 250 takes
  a response that cannot be read for a failed frame, as it takes a call that throws.
  With an API key, five frames and the answer \<open>[null]\<close> to every call no frame
  classifies and yet the count is 5: the mock classifier does not run, the events of the
  analysis being those of the extraction and of the five frames, and the job is
  completed as \<open>safe\<close> with confidence 0.99 and five successful analyses, from no score
  at all.
\<close>

theorem C5_unreadable_answers_no_fallback:
  "\<not> no_apiKey env_unreadable
   \<and> length (loop_outcomes env_unreadable) = 5
   \<and> filter classified (loop_outcomes env_unreadable) = []
   \<and> apiSuccessCount (loop_tally env_unreadable) = 5
   \<and> totalNsfwScore (loop_tally env_unreadable) = Fin 0
   \<and> fst (analyzeSensitivity env_unreadable)
       = Progress (Fin 25) (ExtractingFrames 5) # map (frame_event 5) [0, 1, 2, 3, 4]
   \<and> snd (analyzeSensitivity env_unreadable)
       = \<lparr>verdict_flag = Safe, confidence = rnd (99 / 100), detectedIssues = [],
          verdict_details =
            Some \<lparr>totalFramesAnalyzed = 5, successfulAnalyses = 5, details_flaggedFrames = 0,
                  averageNsfwScore = Fin 0\<rparr>\<rparr>
   \<and> snd (analyzeSensitivity env_unreadable) \<noteq> snd (analyzeSensitivityMock env_unreadable)
   \<and> (\<exists>v'. snd (processVideo env_unreadable job0) = Returns v'
         \<and> status v' = Completed \<and> sensitivityFlag v' = Safe)"
proof -
  have c: "filter classified (loop_outcomes env_unreadable) = []"
    by (simp add: loop_outcomes_env_unreadable scores_unreadable)
  have l: "length (loop_outcomes env_unreadable) = 5"
    by (simp add: loop_outcomes_env_unreadable)
  have n: "snd (analyzeSensitivity env_unreadable) \<noteq> snd (analyzeSensitivityMock env_unreadable)"
  proof
    assume "snd (analyzeSensitivity env_unreadable) = snd (analyzeSensitivityMock env_unreadable)"
    then have "verdict_details (snd (analyzeSensitivity env_unreadable))
        = verdict_details (snd (analyzeSensitivityMock env_unreadable))"
      by simp
    then show False by (simp add: verdict_env_unreadable verdict_mock_env_unreadable)
  qed
  from store_of_returning [of env_unreadable _ job0] probe_env_unreadable(1) probe_env_no_key
  have p: "\<exists>v'. snd (processVideo env_unreadable job0) = Returns v'
         \<and> status v' = Completed \<and> sensitivityFlag v' = Safe"
    by (auto simp: verdict_env_unreadable)
  from key_env_unreadable(1) l c events_env_unreadable verdict_env_unreadable n p
  show ?thesis by (simp add: loop_tally_env_unreadable)
qed

text \<open>
  C6: one frame classifies with an \<open>nsfwScore\<close> of 0.8 and every other frame fails, so
  the average is to be 0.8 and the confidence 0.88. The count by which line 269 divides
  is raised at line 192 for every call that returns, before the response is read. With
  an API key, five frames, the score 0.8 for the third and the answer \<open>[null]\<close> for the
  other four, one frame classifies and the total is 0.8, yet the count is 5: the average
  is 0.16 and the confidence 0.176, the verdict being \<open>flagged\<close> for the flagged frame.
  All numbers are the binary64 values of the literals.
\<close>

theorem C6_unreadable_answers_in_average:
  "\<not> no_apiKey env_one_readable
   \<and> length (loop_outcomes env_one_readable) = 5
   \<and> filter classified (loop_outcomes env_one_readable)
       = [ApiReturns (ResultArray [Entry (Some ''nsfw'') (rnd (8 / 10)),
                                    Entry (Some ''normal'') (rnd (2 / 10))])]
   \<and> map_option fst (frame_scores (ResultArray [Entry (Some ''nsfw'') (rnd (8 / 10)),
                                                  Entry (Some ''normal'') (rnd (2 / 10))]))
       = Some (rnd (8 / 10))
   \<and> totalNsfwScore (loop_tally env_one_readable) = rnd (8 / 10)
   \<and> flaggedFrames (loop_tally env_one_readable) = 1
   \<and> apiSuccessCount (loop_tally env_one_readable) = 5
   \<and> average_of (loop_tally env_one_readable) = rnd (16 / 100)
   \<and> average_of (loop_tally env_one_readable) \<noteq> rnd (8 / 10)
   \<and> verdict_flag (snd (analyzeSensitivity env_one_readable)) = Flagged
   \<and> confidence (snd (analyzeSensitivity env_one_readable)) = rnd (176 / 1000)
   \<and> confidence (snd (analyzeSensitivity env_one_readable)) \<noteq> rnd (88 / 100)
   \<and> verdict_details (snd (analyzeSensitivity env_one_readable))
       = Some \<lparr>totalFramesAnalyzed = 5, successfulAnalyses = 5, details_flaggedFrames = 1,
               averageNsfwScore = rnd (16 / 100)\<rparr>"
proof -
  have c: "filter classified (loop_outcomes env_one_readable)
       = [ApiReturns (ResultArray [Entry (Some ''nsfw'') (rnd (8 / 10)),
                                    Entry (Some ''normal'') (rnd (2 / 10))])]"
    by (simp add: loop_outcomes_env_one_readable scores_unreadable scores_readable
        rnd_c08 rnd_c02)
  have l: "length (loop_outcomes env_one_readable) = 5"
    by (simp add: loop_outcomes_env_one_readable)
  have s: "map_option fst (frame_scores (ResultArray [Entry (Some ''nsfw'') (rnd (8 / 10)),
                                                  Entry (Some ''normal'') (rnd (2 / 10))]))
       = Some (rnd (8 / 10))"
    by (simp add: scores_readable rnd_c08 rnd_c02)
  have a: "average_of (loop_tally env_one_readable) = rnd (16 / 100)"
    "average_of (loop_tally env_one_readable) \<noteq> rnd (8 / 10)"
    by (simp_all add: average_of_def loop_tally_env_one_readable rnd_c08 rnd_c08_fifth rnd_c016)
  have v: "confidence (snd (analyzeSensitivity env_one_readable)) \<noteq> rnd (88 / 100)"
    by (simp add: verdict_env_one_readable rnd_c0176 rnd_c088)
  from key_env_unreadable(2) l c s a v show ?thesis
    by (simp add: loop_tally_env_one_readable verdict_env_one_readable)
qed

section \<open>A score that is missing\<close>

text \<open>
  \<open>Math.max(nsfwScore, item.score)\<close> at line 210 takes the score as it comes. With an
  API key, five frames and the answer \<open>[{"label": "nsfw"}]\<close> to every call, the score
  of every frame is \<open>NaN\<close>, no frame is flagged, and the verdict is \<open>flagged\<close> with a
  confidence and an average that are \<open>NaN\<close>.
\<close>

lemma missing_score_confidence:
  "real_path env_missing_score \<and> \<not> numeric_scores env_missing_score
   \<and> totalNsfwScore (loop_tally env_missing_score) = NaN
   \<and> flaggedFrames (loop_tally env_missing_score) = 0
   \<and> verdict_flag (snd (analyzeSensitivity env_missing_score)) = Flagged
   \<and> confidence (snd (analyzeSensitivity env_missing_score)) = NaN
   \<and> \<not> jle (confidence (snd (analyzeSensitivity env_missing_score))) (rnd (99 / 100))"
  by (simp add: real_path_env_unreadable numeric_scores_def loop_outcomes_env_missing_score
      loop_tally_env_missing_score verdict_env_missing_score jle_def list_all_iff)

end
